theory Spec2Isabelle
  imports Complex_Main "HOL-Library.Log_Nat" "HOL-Library.Multiset"
begin

section \<open>JavaScript numbers\<close>

text \<open>
  Every number of the program is an IEEE 754 binary64 value. A finite one is represented by
  the rational it denotes; the two zeros are identified (no operation below divides by a
  computed zero or inspects the sign of a zero). Arithmetic computes the exact rational
  result and rounds it to the nearest binary64 value, ties to even, with gradual underflow
  below \<open>2 powi (- 1022)\<close> and overflow to an infinity from \<open>2 ^ 1024\<close> on.
\<close>

datatype jsnum = NaN | NegInf | Fin rat | PosInf

text \<open>\<open>expo x\<close> is the binary exponent of \<open>x\<close>: the \<open>e\<close> with \<open>2 powi e \<le> \<bar>x\<bar> < 2 powi (e + 1)\<close>.\<close>

definition expo :: "rat \<Rightarrow> int" where
  "expo x = (let a = \<bar>x\<bar> in
     if 1 \<le> a then bitlen \<lfloor>a\<rfloor> - 1 else - bitlen (\<lceil>1 / a\<rceil> - 1))"

definition round_half_even :: "rat \<Rightarrow> int" where
  "round_half_even y = (let f = \<lfloor>y\<rfloor>; r = y - of_int f in
     if r < 1 / 2 then f else if 1 / 2 < r then f + 1 else if even f then f else f + 1)"

text \<open>The spacing of binary64 values around \<open>x\<close>: 53 significant bits, subnormal below.\<close>

definition ulp :: "rat \<Rightarrow> rat" where
  "ulp x = 2 powi (max (expo x) (- 1022) - 52)"

definition fl :: "rat \<Rightarrow> rat" where
  "fl x = (if x = 0 then 0 else of_int (round_half_even (x / ulp x)) * ulp x)"

definition rnd :: "rat \<Rightarrow> jsnum" where
  "rnd x = (let r = fl x in
     if r = 0 \<or> expo r < 1024 then Fin r else if 0 < r then PosInf else NegInf)"

text \<open>A decimal literal of the source text denotes the binary64 value nearest to it.\<close>

definition js_lit :: "rat \<Rightarrow> jsnum" where
  "js_lit q = rnd q"

fun js_lt :: "jsnum \<Rightarrow> jsnum \<Rightarrow> bool" where
  "js_lt NaN _ = False"
| "js_lt _ NaN = False"
| "js_lt (Fin x) (Fin y) = (x < y)"
| "js_lt NegInf NegInf = False"
| "js_lt NegInf _ = True"
| "js_lt _ NegInf = False"
| "js_lt PosInf _ = False"
| "js_lt _ PosInf = True"

definition js_le :: "jsnum \<Rightarrow> jsnum \<Rightarrow> bool" where
  "js_le a b = (a \<noteq> NaN \<and> b \<noteq> NaN \<and> \<not> js_lt b a)"

definition js_ge :: "jsnum \<Rightarrow> jsnum \<Rightarrow> bool" where
  "js_ge a b = js_le b a"

definition Math_min :: "jsnum \<Rightarrow> jsnum \<Rightarrow> jsnum" where
  "Math_min a b = (if a = NaN \<or> b = NaN then NaN else if js_lt b a then b else a)"

definition Math_max :: "jsnum \<Rightarrow> jsnum \<Rightarrow> jsnum" where
  "Math_max a b = (if a = NaN \<or> b = NaN then NaN else if js_lt a b then b else a)"

fun Math_floor :: "jsnum \<Rightarrow> jsnum" where
  "Math_floor (Fin x) = Fin (of_int \<lfloor>x\<rfloor>)"
| "Math_floor a = a"

fun js_neg :: "jsnum \<Rightarrow> jsnum" where
  "js_neg (Fin x) = Fin (- x)"
| "js_neg NegInf = PosInf"
| "js_neg PosInf = NegInf"
| "js_neg NaN = NaN"

fun js_add :: "jsnum \<Rightarrow> jsnum \<Rightarrow> jsnum" where
  "js_add (Fin x) (Fin y) = rnd (x + y)"
| "js_add NaN _ = NaN"
| "js_add _ NaN = NaN"
| "js_add PosInf NegInf = NaN"
| "js_add NegInf PosInf = NaN"
| "js_add PosInf _ = PosInf"
| "js_add _ PosInf = PosInf"
| "js_add NegInf _ = NegInf"
| "js_add _ NegInf = NegInf"

definition js_sub :: "jsnum \<Rightarrow> jsnum \<Rightarrow> jsnum" where
  "js_sub a b = js_add a (js_neg b)"

fun js_mul :: "jsnum \<Rightarrow> jsnum \<Rightarrow> jsnum" where
  "js_mul (Fin x) (Fin y) = rnd (x * y)"
| "js_mul NaN _ = NaN"
| "js_mul _ NaN = NaN"
| "js_mul a b =
     (if a = Fin 0 \<or> b = Fin 0 then NaN
      else if js_lt a (Fin 0) = js_lt b (Fin 0) then PosInf else NegInf)"

fun js_div :: "jsnum \<Rightarrow> jsnum \<Rightarrow> jsnum" where
  "js_div (Fin x) (Fin y) =
     (if y = 0 then (if x = 0 then NaN else if 0 < x then PosInf else NegInf)
      else rnd (x / y))"
| "js_div NaN _ = NaN"
| "js_div _ NaN = NaN"
| "js_div (Fin x) _ = Fin 0"
| "js_div a (Fin y) = (if js_lt a (Fin 0) = (y < 0) then PosInf else NegInf)"
| "js_div _ _ = NaN"

text \<open>
  The values an array slot or a function argument holds in the code below: \<open>undefined\<close>,
  \<open>null\<close> or a number. \<open>toNumber\<close> is the conversion every numeric operator applies.
\<close>

datatype jsval = Undefined | Null | Num jsnum

fun toNumber :: "jsval \<Rightarrow> jsnum" where
  "toNumber Undefined = NaN"
| "toNumber Null = Fin 0"
| "toNumber (Num n) = n"

definition js_isNaN :: "jsval \<Rightarrow> bool" where
  "js_isNaN v = (toNumber v = NaN)"

text \<open>Reading \<open>xs[i]\<close>: \<open>undefined\<close> (here \<open>None\<close>) unless \<open>i\<close> is an index of the array.\<close>

fun arr_get :: "'a list \<Rightarrow> jsnum \<Rightarrow> 'a option" where
  "arr_get xs (Fin q) =
     (if q = of_int \<lfloor>q\<rfloor> \<and> 0 \<le> q \<and> \<lfloor>q\<rfloor> < int (length xs) then Some (xs ! nat \<lfloor>q\<rfloor>) else None)"
| "arr_get xs _ = None"

definition js_num :: "nat \<Rightarrow> jsnum" where
  "js_num n = Fin (of_nat n)"

section \<open>Constants of \<open>mapConstants.jsx\<close>\<close>

definition purpleGradientColors :: "string list" where
  "purpleGradientColors =
     [''#F8F4FF'', ''#E8D5F2'', ''#D4B3E8'', ''#C191DE'', ''#BD6FCB'',
      ''#A855C7'', ''#9333EA'', ''#7C3AED'', ''#6B21A8'', ''#581C87'']"

section \<open>The colour ramp of the two map components\<close>

text \<open>
  Both components declare \<open>min = -2\<close>, \<open>max = 0.2\<close>, \<open>range = max - min\<close> and take
  \<open>numColors\<close> from the length of the palette.
\<close>

definition min_val :: jsnum where
  "min_val = js_lit (- 2)"

definition max_val :: jsnum where
  "max_val = js_lit (2 / 10)"

definition range_val :: jsnum where
  "range_val = js_sub max_val min_val"

definition numColors :: jsnum where
  "numColors = js_num (length purpleGradientColors)"

subsection \<open>\<open>MapComponent.jsx\<close>: the callback handed to the raster layer\<close>

text \<open>
  \<open>pixelValuesToColorFn\<close> receives the band values of one pixel and returns \<open>null\<close>, a
  palette string, or \<open>undefined\<close> when the palette has no entry at the computed index.
\<close>

datatype color_ret = RetNull | RetUndefined | RetColor string

definition pixelValuesToColorFn :: "jsval list \<Rightarrow> color_ret" where
  "pixelValuesToColorFn values =
     (let pixelValue = (case values of [] \<Rightarrow> Undefined | v # _ \<Rightarrow> v) in
      if pixelValue = Undefined \<or> pixelValue = Null \<or> js_isNaN pixelValue
         \<or> js_lt (toNumber pixelValue) min_val
      then RetNull
      else
        let clampedValue = Math_max min_val (Math_min max_val (toNumber pixelValue));
            normalized = js_div (js_sub clampedValue min_val) range_val
        in if normalized = Fin 1
           then (case arr_get purpleGradientColors (js_sub numColors (Fin 1)) of
                   None \<Rightarrow> RetUndefined | Some c \<Rightarrow> RetColor c)
           else
             let colorIndex = Math_floor (js_mul normalized numColors)
             in (case arr_get purpleGradientColors colorIndex of
                   None \<Rightarrow> RetUndefined | Some c \<Rightarrow> RetColor c))"

subsection \<open>The canvas variant: \<open>renderTiffOverlay\<close>\<close>

text \<open>
  \<open>hexToRgb\<close> matches \<open>/^#?([a-f\\d]{2})([a-f\\d]{2})([a-f\\d]{2})$/i\<close> and reads each pair
  with \<open>parseInt(_, 16)\<close>; \<open>None\<close> is its \<open>null\<close>.
\<close>

definition hex_digit :: "char \<Rightarrow> nat option" where
  "hex_digit c = (let n = (of_char c :: nat) in
     if 48 \<le> n \<and> n \<le> 57 then Some (n - 48)
     else if 97 \<le> n \<and> n \<le> 102 then Some (n - 87)
     else if 65 \<le> n \<and> n \<le> 70 then Some (n - 55)
     else None)"

definition hex_pair :: "char \<Rightarrow> char \<Rightarrow> nat option" where
  "hex_pair a b = (case (hex_digit a, hex_digit b) of
     (Some h, Some l) \<Rightarrow> Some (16 * h + l) | _ \<Rightarrow> None)"

definition hexToRgb :: "string \<Rightarrow> (nat \<times> nat \<times> nat) option" where
  "hexToRgb hex =
     (let body = (case hex of c # cs \<Rightarrow> if c = CHR ''#'' then cs else hex | [] \<Rightarrow> hex) in
      case body of
        [a, b, c, d, e, f] \<Rightarrow>
          (case (hex_pair a b, hex_pair c d, hex_pair e f) of
             (Some r, Some g, Some bl) \<Rightarrow> Some (r, g, bl)
           | _ \<Rightarrow> None)
      | _ \<Rightarrow> None)"

definition colorRamp :: "(nat \<times> nat \<times> nat) option list" where
  "colorRamp = map hexToRgb purpleGradientColors"

text \<open>
  \<open>imageData.data\<close> is a \<open>Uint8ClampedArray\<close>: a store converts the number to a byte
  (clamped to \<open>0..255\<close>, rounded to nearest, ties to even), and a store outside the array
  does nothing.
\<close>

fun ToUint8Clamp :: "jsnum \<Rightarrow> nat" where
  "ToUint8Clamp NaN = 0"
| "ToUint8Clamp NegInf = 0"
| "ToUint8Clamp PosInf = 255"
| "ToUint8Clamp (Fin x) = (if x \<le> 0 then 0 else if 255 \<le> x then 255 else nat (round_half_even x))"

definition store :: "nat list \<Rightarrow> nat \<Rightarrow> jsnum \<Rightarrow> nat list" where
  "store data k v = (if k < length data then data[k := ToUint8Clamp v] else data)"

text \<open>The body of the pixel loop, for the sample \<open>rasters[i]\<close>.\<close>

definition paint :: "jsval \<Rightarrow> nat \<Rightarrow> nat list \<Rightarrow> nat list" where
  "paint pixelValue i data =
     (let j = i * 4 in
      if pixelValue = Undefined \<or> js_isNaN pixelValue \<or> js_lt (toNumber pixelValue) min_val
      then store data (j + 3) (Fin 0)
      else
        let clampedValue = Math_max min_val (Math_min max_val (toNumber pixelValue));
            normalized = js_div (js_sub clampedValue min_val) range_val;
            colorIndex = Math_min (js_sub (js_num (length colorRamp)) (Fin 1))
                                  (Math_floor (js_mul normalized (js_num (length colorRamp))))
        in case arr_get colorRamp colorIndex of
             Some (Some (r, g, b)) \<Rightarrow>
               store (store (store (store data j (js_num r)) (j + 1) (js_num g)) (j + 2) (js_num b))
                     (j + 3) (js_mul (Fin 255) (js_lit (7 / 10)))
           | _ \<Rightarrow> store data (j + 3) (Fin 0))"

text \<open>
  The loop runs over every element of \<open>rasters\<close>, the interleaved samples that
  \<open>readRasters({ interleave: true })\<close> returns, on an image buffer of
  \<open>width * height * 4\<close> zero bytes.
\<close>

fun render_loop :: "jsval list \<Rightarrow> nat \<Rightarrow> nat list \<Rightarrow> nat list" where
  "render_loop [] i data = data"
| "render_loop (v # vs) i data = render_loop vs (Suc i) (paint v i data)"

definition renderTiffOverlay :: "nat \<Rightarrow> nat \<Rightarrow> jsval list \<Rightarrow> nat list" where
  "renderTiffOverlay width height rasters = render_loop rasters 0 (replicate (width * height * 4) 0)"

text \<open>The four bytes the loop body leaves in a fresh pixel.\<close>

definition canvas_pixel :: "jsval \<Rightarrow> nat list" where
  "canvas_pixel v = paint v 0 [0, 0, 0, 0]"

text \<open>
  The index that the specification names, \<open>min(9, floor((v - (-2.0)) / 2.2 * 10))\<close>, with
  each operation rounded as the language rounds it, and the pixel that shows palette
  entry \<open>k\<close> with the alpha byte \<open>178\<close>: \<open>255 * 0.7 = 178.5\<close> stored in a clamped byte.
\<close>

definition decile_index :: "jsnum \<Rightarrow> jsnum" where
  "decile_index v =
     Math_min (Fin 9)
       (Math_floor (js_mul (js_div (js_sub v (js_lit (- 2))) (js_lit (22 / 10))) (Fin 10)))"

definition palette_rgba :: "nat \<Rightarrow> nat list" where
  "palette_rgba k = (case hexToRgb (purpleGradientColors ! k) of
     Some (r, g, b) \<Rightarrow> [r, g, b, 178] | None \<Rightarrow> [])"

text \<open>The value of the expression \<open>-2.0 + k * 0.22\<close>.\<close>

definition boundary :: "nat \<Rightarrow> jsnum" where
  "boundary k = js_add (js_lit (- 2)) (js_mul (js_num k) (js_lit (22 / 100)))"

text \<open>
  Closed forms of the constants and of the intermediate values of the ramp, for a clamped
  value \<open>c\<close>: \<open>max_q\<close> is the binary64 value of \<open>0.2\<close>, \<open>range_q\<close> that of \<open>0.2 - (-2)\<close>.
\<close>

definition max_q :: rat where
  "max_q = 3602879701896397 / 18014398509481984"

definition range_q :: rat where
  "range_q = 2476979795053773 / 1125899906842624"

definition ramp_norm :: "rat \<Rightarrow> rat" where
  "ramp_norm c = fl (fl (c + 2) / range_q)"

definition ramp_index :: "rat \<Rightarrow> nat" where
  "ramp_index c = nat (min 9 \<lfloor>fl (ramp_norm c * 10)\<rfloor>)"

section \<open>The legend: \<open>formatLegendNumber\<close> and \<open>useLegend\<close>\<close>

definition digit_char :: "nat \<Rightarrow> char" where
  "digit_char d = ''0123456789'' ! d"

fun decimal :: "nat \<Rightarrow> string" where
  "decimal n = (if n < 10 then [digit_char n] else decimal (n div 10) @ [digit_char (n mod 10)])"

declare decimal.simps [simp del]

text \<open>
  \<open>Number.prototype.toFixed(f)\<close>: the sign, then the integer \<open>n\<close> nearest to
  \<open>\<bar>x\<bar> * 10 ^ f\<close> (the larger one in a tie) written in decimal with a point before its last
  \<open>f\<close> digits. From \<open>10 ^ 21\<close> on the result is the host's exponential rendering of the
  number, which is the parameter \<open>ts\<close>.
\<close>

definition toFixed :: "(rat \<Rightarrow> string) \<Rightarrow> nat \<Rightarrow> jsnum \<Rightarrow> string" where
  "toFixed ts f v =
     (case v of
        NaN \<Rightarrow> ''NaN''
      | PosInf \<Rightarrow> ''Infinity''
      | NegInf \<Rightarrow> ''-Infinity''
      | Fin x \<Rightarrow>
          if 10 ^ 21 \<le> \<bar>x\<bar> then ts x
          else
            let s = (if x < 0 then ''-'' else []);
                n = nat \<lfloor>\<bar>x\<bar> * 10 ^ f + 1 / 2\<rfloor>;
                m = decimal n;
                m' = (if f = 0 then m
                      else let z = replicate (f + 1 - length m) (CHR ''0'') @ m;
                               k = length z
                           in take (k - f) z @ ''.'' @ drop (k - f) z)
            in s @ m')"

text \<open>
  \<open>parseFloat\<close> of a number parses the number's own decimal rendering and so returns the
  number; of \<open>undefined\<close> and \<open>null\<close> it returns \<open>NaN\<close>.
\<close>

fun parseFloat :: "jsval \<Rightarrow> jsnum" where
  "parseFloat (Num n) = n"
| "parseFloat _ = NaN"

definition formatLegendNumber :: "(rat \<Rightarrow> string) \<Rightarrow> jsval \<Rightarrow> string" where
  "formatLegendNumber ts v =
     (if v = Null \<or> v = Undefined then ''N/A''
      else let num = parseFloat v in
        if num = NaN then ''N/A'' else toFixed ts 3 num)"

record visualization =
  opt_value :: string
  opt_label :: string

definition visualizationOptions :: "visualization list" where
  "visualizationOptions =
     [\<lparr>opt_value = ''displacement'', opt_label = ''Ground Displacement''\<rparr>,
      \<lparr>opt_value = ''velocity'', opt_label = ''Velocity''\<rparr>,
      \<lparr>opt_value = ''coherence'', opt_label = ''Coherence''\<rparr>,
      \<lparr>opt_value = ''elevation'', opt_label = ''Elevation''\<rparr>]"

text \<open>A reference that is \<open>undefined\<close>, \<open>null\<close> or an object.\<close>

datatype 'a nullable = IsUndefined | IsNull | Obj 'a

record legend_entry =
  color :: string
  label :: string

record legend_config =
  title :: string
  description :: string
  visualizationType :: string
  ranges :: "legend_entry list"

text \<open>
  Of the dataset descriptor the code reads \<open>name\<close> (a string, or absent) and \<open>resources\<close>.
  A resource's \<open>created\<close> and \<open>last_modified\<close> are date strings; each is represented by the
  time value, in milliseconds since the epoch, that \<open>new Date\<close> gives it, and \<open>None\<close> is
  an absent or empty field.
\<close>

record resource =
  format :: "string option"
  name :: "string option"
  url :: "string option"
  description_r :: "string option"
  id_r :: "string option"
  created :: "int option"
  last_modified :: "int option"

record dataset =
  ds_name :: "string option"
  resources :: "resource list option"

definition useLegend ::
  "(rat \<Rightarrow> string) \<Rightarrow> visualization nullable \<Rightarrow> dataset nullable \<Rightarrow> string
     \<Rightarrow> legend_config option" where
  "useLegend ts currentVisualization datasetInfo visType =
     (case currentVisualization of
        Obj cv \<Rightarrow>
          let numSteps = js_num (length purpleGradientColors);
              step = js_div (js_sub max_val min_val) numSteps
          in Some \<lparr>
               title = opt_label cv @ '' Legend'',
               description = ''Gulf Coast InSAR Data '' @
                 (case datasetInfo of
                    Obj d \<Rightarrow> (case ds_name d of
                                Some n \<Rightarrow> if n \<noteq> [] then ''('' @ n @ '')'' else []
                              | None \<Rightarrow> [])
                  | _ \<Rightarrow> []),
               visualizationType = visType,
               ranges = map (\<lambda>(color, index).
                   let rangeStart = js_add min_val (js_mul (js_num index) step);
                       rangeEnd = js_add rangeStart step
                   in \<lparr>color = color,
                       label = formatLegendNumber ts (Num rangeStart) @ '' - '' @
                               formatLegendNumber ts (Num rangeEnd)\<rparr>)
                 (zip purpleGradientColors [0 ..< length purpleGradientColors])\<rparr>
      | _ \<Rightarrow> None)"

section \<open>Display bounds in \<open>useTiffData.js\<close>\<close>

record box =
  xmin :: jsnum
  xmax :: jsnum
  ymin :: jsnum
  ymax :: jsnum

text \<open>Of the parsed raster the code reads its bounding box.\<close>

type_synonym georaster = box

record display_bounds = box +
  isProjected :: bool
  originalBounds :: "box option"

definition isGeographic :: "georaster \<Rightarrow> bool" where
  "isGeographic g =
     (js_ge (xmin g) (js_lit (- 180)) \<and> js_le (xmax g) (js_lit 180) \<and>
      js_ge (ymin g) (js_lit (- 90)) \<and> js_le (ymax g) (js_lit 90))"

definition displayBounds :: "georaster \<Rightarrow> display_bounds" where
  "displayBounds g =
     (if isGeographic g
      then \<lparr>xmin = xmin g, xmax = xmax g, ymin = ymin g, ymax = ymax g,
            isProjected = False, originalBounds = None\<rparr>
      else \<lparr>xmin = js_lit (- 975 / 10), xmax = js_lit (- 80), ymin = js_lit 25,
            ymax = js_lit (305 / 10), isProjected = True,
            originalBounds = Some \<lparr>xmin = xmin g, xmax = xmax g, ymin = ymin g, ymax = ymax g\<rparr>\<rparr>)"

section \<open>Raster resources: \<open>getAllTiffResources\<close> and \<open>getLatestTiffUrl\<close>\<close>

text \<open>Strings of the catalogue are taken as ASCII.\<close>

definition lower_char :: "char \<Rightarrow> char" where
  "lower_char c = (let n = (of_char c :: nat) in
     if 65 \<le> n \<and> n \<le> 90 then char_of (n + 32) else c)"

definition toLowerCase :: "string \<Rightarrow> string" where
  "toLowerCase s = map lower_char s"

fun str_includes :: "string \<Rightarrow> string \<Rightarrow> bool" where
  "str_includes [] sub = (sub = [])"
| "str_includes (c # cs) sub = (take (length sub) (c # cs) = sub \<or> str_includes cs sub)"

definition isTiff :: "'a resource_scheme \<Rightarrow> bool" where
  "isTiff r =
     ((case format r of Some f \<Rightarrow> toLowerCase f = ''tiff'' | None \<Rightarrow> False) \<or>
      (case format r of Some f \<Rightarrow> toLowerCase f = ''geotiff'' | None \<Rightarrow> False) \<or>
      (case name r of Some n \<Rightarrow> str_includes (toLowerCase n) ''.tif'' | None \<Rightarrow> False) \<or>
      (case url r of Some u \<Rightarrow> str_includes (toLowerCase u) ''.tif'' | None \<Rightarrow> False))"

text \<open>\<open>new Date(a.created || a.last_modified || 0)\<close>, as a time value.\<close>

definition dateOf :: "'a resource_scheme \<Rightarrow> int" where
  "dateOf a = (case created a of Some t \<Rightarrow> t
     | None \<Rightarrow> (case last_modified a of Some t \<Rightarrow> t | None \<Rightarrow> 0))"

definition byDateDesc :: "'a resource_scheme \<Rightarrow> 'a resource_scheme \<Rightarrow> int" where
  "byDateDesc a b = dateOf b - dateOf a"

text \<open>
  \<open>Array.prototype.sort\<close> with a comparator is a stable sort: an element stays in front
  of a later one unless the comparator returns a positive number for the pair.
\<close>

fun insert_by :: "('a \<Rightarrow> 'a \<Rightarrow> int) \<Rightarrow> 'a \<Rightarrow> 'a list \<Rightarrow> 'a list" where
  "insert_by cmp x [] = [x]"
| "insert_by cmp x (y # ys) = (if cmp x y \<le> 0 then x # y # ys else y # insert_by cmp x ys)"

definition sort_by :: "('a \<Rightarrow> 'a \<Rightarrow> int) \<Rightarrow> 'a list \<Rightarrow> 'a list" where
  "sort_by cmp xs = foldr (insert_by cmp) xs []"

record raster = resource +
  displayName :: string

definition addDisplayName :: "resource \<Rightarrow> nat \<Rightarrow> raster" where
  "addDisplayName r index =
     \<lparr>format = format r, name = name r, url = url r, description_r = description_r r,
      id_r = (case id_r r of
                Some i \<Rightarrow> if i \<noteq> [] then Some i else Some (''raster-'' @ decimal index)
              | None \<Rightarrow> Some (''raster-'' @ decimal index)),
      created = created r, last_modified = last_modified r,
      displayName = (case name r of
                Some n \<Rightarrow> if n \<noteq> [] then n else ''Raster '' @ decimal (index + 1)
              | None \<Rightarrow> ''Raster '' @ decimal (index + 1))\<rparr>"

definition getAllTiffResources :: "dataset nullable \<Rightarrow> string + raster list" where
  "getAllTiffResources ds =
     (case ds of
        Obj d \<Rightarrow>
          (case resources d of
             None \<Rightarrow> Inl ''No resources found in dataset''
           | Some rs \<Rightarrow>
               let tiffResources = filter isTiff rs in
               if length tiffResources = 0 then Inl ''No TIFF files found in dataset''
               else
                 let sortedTiffs = sort_by byDateDesc tiffResources
                 in Inr (map (\<lambda>(r, index). addDisplayName r index)
                           (zip sortedTiffs [0 ..< length sortedTiffs])))
      | _ \<Rightarrow> Inl ''No resources found in dataset'')"



section \<open>The state of \<open>MapComponent\<close> and its loads\<close>

text \<open>
  The component keeps \<open>loading\<close>, \<open>error\<close>, \<open>tiffData\<close>, \<open>datasetInfo\<close> (the field
  \<open>dataset_info\<close>), \<open>availableRasters\<close> and \<open>selectedRaster\<close> as state, the map in
  \<open>mapRef\<close> and the attached layer in \<open>currentLayerRef\<close>. The state \<open>tiffData\<close> is either
  \<open>{georaster, info, isActualData: true}\<close> or
  \<open>{placeholder: true, info, isActualData: false, error}\<close>. The variant
  \<open>src/unnamed/part_000\<close> has the same state with the parsed file of the \<open>geotiff\<close> package
  in the field \<open>geotiff\<close> of \<open>tiffData\<close> and an image overlay as layer, so the parsed raster
  \<open>'g\<close> and the layer \<open>'l\<close> are parameters of the state. The calls of \<open>loadDatasetInfo\<close> and
  \<open>loadTiffData\<close> that have reached an \<open>await\<close> and have not returned from it are kept in
  \<open>outstanding\<close>.
\<close>

record raster_layer =
  lr_georaster :: georaster
  opacity :: jsnum
  resolution :: nat

record 'g tiff_data =
  td_georaster :: "'g option"
  td_placeholder :: bool
  td_info :: raster
  td_isActualData :: bool
  td_error :: "string option"

datatype task = DatasetLoad | RasterLoad raster

record ('g, 'l) component =
  loading :: bool
  error :: "string option"
  tiffData :: "'g tiff_data option"
  dataset_info :: "dataset nullable"
  availableRasters :: "raster list"
  selectedRaster :: "raster option"
  currentLayer :: "'l option"
  mapRef :: bool
  outstanding :: "task list"

text \<open>
  How the awaited part of \<open>loadTiffData\<close> ends: \<open>fetch\<close> rejects, the response is not
  \<open>ok\<close>, the parser rejects, or the parser returns a raster. The strings are the messages
  of the errors thrown by the collaborators.
\<close>

datatype 'g load_outcome =
  FetchRejected string
| NotOk nat string
| DecodeRejected string
| Decoded 'g

fun thrown_message :: "'g load_outcome \<Rightarrow> string option" where
  "thrown_message (FetchRejected m) = Some m"
| "thrown_message (NotOk status statusText) =
     Some (''Failed to fetch TIFF file: '' @ decimal status @ '' '' @ statusText)"
| "thrown_message (DecodeRejected m) = Some m"
| "thrown_message (Decoded g) = None"

text \<open>
  \<open>loadTiffData\<close> up to its first \<open>await\<close>, and from the end of the awaited part on. Every
  error of the awaited part is caught by the inner \<open>catch\<close>, which stores the placeholder;
  the outer \<open>catch\<close> with its \<open>setError\<close> is not reached; \<open>finally\<close> clears \<open>loading\<close>.
  The function is the same in \<open>MapComponent.jsx\<close>, where the parser is \<open>parseGeoraster\<close>,
  and in \<open>part_000\<close>, where it is \<open>fromArrayBuffer\<close>.
\<close>

definition loadTiffData_start ::
  "raster \<Rightarrow> ('g, 'l) component \<Rightarrow> ('g, 'l) component" where
  "loadTiffData_start rasterResource s =
     s\<lparr>loading := True, error := None,
       outstanding := outstanding s @ [RasterLoad rasterResource]\<rparr>"

definition loadTiffData_finish ::
  "raster \<Rightarrow> 'g load_outcome \<Rightarrow> ('g, 'l) component \<Rightarrow> ('g, 'l) component" where
  "loadTiffData_finish rasterResource outcome s =
     (let s' = (case outcome of
                  Decoded g \<Rightarrow>
                    s\<lparr>tiffData := Some \<lparr>td_georaster = Some g, td_placeholder = False,
                                        td_info = rasterResource, td_isActualData = True,
                                        td_error = None\<rparr>\<rparr>
                | _ \<Rightarrow>
                    s\<lparr>tiffData := Some \<lparr>td_georaster = None, td_placeholder = True,
                                        td_info = rasterResource, td_isActualData = False,
                                        td_error = thrown_message outcome\<rparr>\<rparr>)
      in s'\<lparr>loading := False,
            outstanding := remove1 (RasterLoad rasterResource) (outstanding s)\<rparr>)"

text \<open>
  The effect on \<open>[selectedRaster]\<close>, which runs when \<open>selectedRaster\<close> has changed, and
  \<open>handleRasterChange\<close> for the value of the chosen option of the select box.
  \<open>setSelectedRaster\<close> with the raster that is selected already changes no state, and no
  effect runs.
\<close>

definition selectedRaster_effect :: "('g, 'l) component \<Rightarrow> ('g, 'l) component" where
  "selectedRaster_effect s =
     (case selectedRaster s of Some r \<Rightarrow> loadTiffData_start r s | None \<Rightarrow> s)"

definition handleRasterChange :: "string \<Rightarrow> ('g, 'l) component \<Rightarrow> ('g, 'l) component" where
  "handleRasterChange rasterId s =
     (let raster = find (\<lambda>r. id_r r = Some rasterId) (availableRasters s) in
      if raster = selectedRaster s then s
      else selectedRaster_effect (s\<lparr>selectedRaster := raster\<rparr>))"

text \<open>
  \<open>loadDatasetInfo\<close> up to its \<open>await\<close>, and from the end of \<open>fetchDatasetInfo\<close> on, which
  throws an error with a message or returns the dataset of the catalogue. The rasters are
  fresh objects, so the selection of the first one is a change, and the effect on
  \<open>[selectedRaster]\<close> runs after \<open>finally\<close> has cleared \<open>loading\<close>.
\<close>

definition loadDatasetInfo_start :: "('g, 'l) component \<Rightarrow> ('g, 'l) component" where
  "loadDatasetInfo_start s =
     s\<lparr>loading := True, error := None, outstanding := outstanding s @ [DatasetLoad]\<rparr>"

definition loadDatasetInfo_finish ::
  "string + dataset nullable \<Rightarrow> ('g, 'l) component \<Rightarrow> ('g, 'l) component" where
  "loadDatasetInfo_finish fetched s =
     (let s' = s\<lparr>outstanding := remove1 DatasetLoad (outstanding s)\<rparr> in
      case fetched of
        Inl msg \<Rightarrow> s'\<lparr>error := Some msg, loading := False\<rparr>
      | Inr ds \<Rightarrow>
          (case getAllTiffResources ds of
             Inl msg \<Rightarrow> s'\<lparr>dataset_info := ds, error := Some msg, loading := False\<rparr>
           | Inr tiffResources \<Rightarrow>
               (case tiffResources of
                  [] \<Rightarrow> s'\<lparr>dataset_info := ds, availableRasters := tiffResources,
                           loading := False\<rparr>
                | r # rest \<Rightarrow>
                    selectedRaster_effect
                      (s'\<lparr>dataset_info := ds, availableRasters := tiffResources,
                          selectedRaster := Some r, loading := False\<rparr>))))"

text \<open>
  The effect of \<open>MapComponent.jsx\<close> that runs when \<open>tiffData\<close> has changed: it returns at
  once without a map or without a raster in \<open>tiffData\<close>; otherwise it removes the attached
  layer and attaches a new one for the raster.
\<close>

definition tiffData_effect ::
  "(georaster, raster_layer) component \<Rightarrow> (georaster, raster_layer) component" where
  "tiffData_effect s =
     (case tiffData s of
        None \<Rightarrow> s
      | Some td \<Rightarrow>
          (case td_georaster td of
             None \<Rightarrow> s
           | Some g \<Rightarrow>
               if \<not> mapRef s then s
               else s\<lparr>currentLayer :=
                        Some \<lparr>lr_georaster = g, opacity = js_lit (7 / 10), resolution = 256\<rparr>\<rparr>))"

text \<open>
  The events of the component: a click on the \<open>Retry\<close> button, which is rendered when
  \<open>error\<close> is truthy and calls \<open>loadDatasetInfo\<close>; the end of the awaited part of
  \<open>loadDatasetInfo\<close>; a change of the select box to the option with the given value, which
  is \<open>disabled\<close> while \<open>loading\<close> is set or there are no rasters; and the end of the awaited
  part of \<open>loadTiffData\<close> for a raster.
\<close>

datatype event =
  Retry
| DatasetEnds "string + dataset nullable"
| SelectRaster string
| LoadEnds raster "georaster load_outcome"

definition truthy :: "string option \<Rightarrow> bool" where
  "truthy e = (case e of Some m \<Rightarrow> m \<noteq> [] | None \<Rightarrow> False)"

fun step ::
  "(georaster, raster_layer) component \<Rightarrow> event \<Rightarrow> (georaster, raster_layer) component" where
  "step s Retry = (if truthy (error s) then loadDatasetInfo_start s else s)"
| "step s (DatasetEnds fetched) = loadDatasetInfo_finish fetched s"
| "step s (SelectRaster rasterId) =
     (if loading s \<or> availableRasters s = [] then s else handleRasterChange rasterId s)"
| "step s (LoadEnds r outcome) = tiffData_effect (loadTiffData_finish r outcome s)"

text \<open>
  An event can occur when its button or option is there and enabled, and an awaited part
  can only end when its call is outstanding. A run is a sequence of events that occur one
  after the other; \<open>None\<close> is a sequence that cannot occur.
\<close>

fun enabled :: "(georaster, raster_layer) component \<Rightarrow> event \<Rightarrow> bool" where
  "enabled s Retry = truthy (error s)"
| "enabled s (DatasetEnds fetched) = (DatasetLoad \<in> set (outstanding s))"
| "enabled s (SelectRaster rasterId) =
     (\<not> (loading s \<or> availableRasters s = [])
      \<and> Some rasterId \<in> set (map id_r (availableRasters s)))"
| "enabled s (LoadEnds r outcome) = (RasterLoad r \<in> set (outstanding s))"

fun run ::
  "(georaster, raster_layer) component \<Rightarrow> event list
     \<Rightarrow> (georaster, raster_layer) component option" where
  "run s [] = Some s"
| "run s (e # es) = (if enabled s e then run (step s e) es else None)"

text \<open>
  The component after the effects of its mount: the map is there, and \<open>loadDatasetInfo\<close>
  awaits the catalogue.
\<close>

definition mounted :: "('g, 'l) component" where
  "mounted = \<lparr>loading = True, error = None, tiffData = None, dataset_info = IsNull,
              availableRasters = [], selectedRaster = None, currentLayer = None,
              mapRef = True, outstanding = [DatasetLoad]\<rparr>"


section \<open>The overlay of \<open>src/unnamed/part_000\<close>\<close>

text \<open>
  In \<open>part_000\<close> the parsed file is read when the overlay is drawn: \<open>renderTiffOverlay\<close>
  awaits \<open>getImage\<close> and \<open>readRasters\<close>, paints the canvas with the pixel loop and attaches
  an image overlay of opacity \<open>1\<close> with the bounding box of the image as bounds. A parsed
  file is represented by what these two calls give for it: the message of the error they
  reject with, or the image.
\<close>

record canvas_image =
  im_bbox :: box
  im_width :: nat
  im_height :: nat
  im_rasters :: "jsval list"

type_synonym geotiff = "string + canvas_image"

record image_overlay =
  io_bounds :: box
  io_data :: "nat list"
  io_opacity :: jsnum

text \<open>
  The effect of \<open>part_000\<close> that runs when \<open>tiffData\<close> has changed, up to the first \<open>await\<close>
  of \<open>renderTiffOverlay\<close>: it returns at once without a map or without a parsed file in
  \<open>tiffData\<close>, and otherwise removes the attached layer.
\<close>

definition tiffData_effect_canvas ::
  "(geotiff, image_overlay) component \<Rightarrow> (geotiff, image_overlay) component" where
  "tiffData_effect_canvas s =
     (case tiffData s of
        None \<Rightarrow> s
      | Some td \<Rightarrow>
          (case td_georaster td of
             None \<Rightarrow> s
           | Some g \<Rightarrow> if \<not> mapRef s then s else s\<lparr>currentLayer := None\<rparr>))"

text \<open>
  The end of \<open>renderTiffOverlay\<close> for the parsed file \<open>geotiff\<close>: the overlay is attached, or
  the error is caught and reported with \<open>setError\<close>.
\<close>

definition renderTiffOverlay_ends ::
  "geotiff \<Rightarrow> (geotiff, image_overlay) component \<Rightarrow> (geotiff, image_overlay) component" where
  "renderTiffOverlay_ends geotiff s =
     (case geotiff of
        Inl err \<Rightarrow>
          s\<lparr>error := Some
            ''Could not render the selected raster. It may be in an unsupported format.''\<rparr>
      | Inr img \<Rightarrow>
          s\<lparr>currentLayer := Some
            \<lparr>io_bounds = im_bbox img,
             io_data = renderTiffOverlay (im_width img) (im_height img) (im_rasters img),
             io_opacity = Fin 1\<rparr>\<rparr>)"

section \<open>Example inputs\<close>

text \<open>Two rasters of the catalogue and the rasters their files decode to.\<close>

definition rasterA :: raster where
  "rasterA = \<lparr>format = Some ''GeoTIFF'', name = Some ''A.tif'', url = Some ''https://host/A.tif'',
     description_r = None, id_r = Some ''raster-0'', created = Some 2000, last_modified = None,
     displayName = ''A.tif''\<rparr>"

definition rasterB :: raster where
  "rasterB = \<lparr>format = Some ''GeoTIFF'', name = Some ''B.tif'', url = Some ''https://host/B.tif'',
     description_r = None, id_r = Some ''raster-1'', created = Some 1000, last_modified = None,
     displayName = ''B.tif''\<rparr>"

definition georasterA :: georaster where
  "georasterA = \<lparr>xmin = Fin (- 98), xmax = Fin (- 97), ymin = Fin 26, ymax = Fin 27\<rparr>"


text \<open>
  A catalogue with the resources of the two rasters, and the component when the first
  raster of that catalogue has been loaded.
\<close>

definition catalogue :: dataset where
  "catalogue = \<lparr>ds_name = Some ''Gulf Coast'', resources = Some
     [\<lparr>format = Some ''GeoTIFF'', name = Some ''B.tif'', url = Some ''https://host/B.tif'',
        description_r = None, id_r = None, created = Some 1000, last_modified = None\<rparr>,
      \<lparr>format = Some ''GeoTIFF'', name = Some ''A.tif'', url = Some ''https://host/A.tif'',
        description_r = None, id_r = None, created = Some 2000, last_modified = None\<rparr>]\<rparr>"

definition loadedA :: "(georaster, raster_layer) component" where
  "loadedA = \<lparr>loading = False, error = None,
     tiffData = Some \<lparr>td_georaster = Some georasterA, td_placeholder = False,
                      td_info = rasterA, td_isActualData = True, td_error = None\<rparr>,
     dataset_info = Obj catalogue, availableRasters = [rasterA, rasterB],
     selectedRaster = Some rasterA,
     currentLayer = Some \<lparr>lr_georaster = georasterA, opacity = js_lit (7 / 10),
                           resolution = 256\<rparr>,
     mapRef = True, outstanding = []\<rparr>"

section \<open>Properties of rounding\<close>

lemma bitlen_powi_bounds:
  assumes "0 < n"
  shows "(2::rat) powi (bitlen n - 1) \<le> of_int n" and "of_int n + 1 \<le> (2::rat) powi (bitlen n)"
proof -
  from bitlen_bounds [OF assms] have lo: "2 ^ nat (bitlen n - 1) \<le> n" and hi: "n < 2 ^ nat (bitlen n)"
    by auto
  have b1: "1 \<le> bitlen n" using assms by (simp add: bitlen_alt_def)
  have "(2::rat) powi (bitlen n - 1) = 2 ^ nat (bitlen n - 1)"
    using b1 by (simp add: power_int_def)
  also have "\<dots> = of_int (2 ^ nat (bitlen n - 1))" by simp
  also have "\<dots> \<le> of_int n" using lo by (simp only: of_int_le_iff)
  finally show "(2::rat) powi (bitlen n - 1) \<le> of_int n" .
  have "n + 1 \<le> 2 ^ nat (bitlen n)" using hi by simp
  then have "(of_int (n + 1) :: rat) \<le> of_int (2 ^ nat (bitlen n))" by (simp only: of_int_le_iff)
  also have "\<dots> = 2 powi (bitlen n)" using b1 by (simp add: power_int_def)
  finally show "of_int n + 1 \<le> (2::rat) powi (bitlen n)" by simp
qed

lemma expo_bounds:
  assumes "0 < x"
  shows "(2::rat) powi (expo x) \<le> x" and "x < (2::rat) powi (expo x + 1)"
proof -
  have both: "(2::rat) powi (expo x) \<le> x \<and> x < (2::rat) powi (expo x + 1)"
  proof (cases "1 \<le> x")
    case True
    then have n: "0 < \<lfloor>x\<rfloor>" by simp
    have e: "expo x = bitlen \<lfloor>x\<rfloor> - 1" using True assms by (simp add: expo_def)
    have "(2::rat) powi (expo x) \<le> of_int \<lfloor>x\<rfloor>" using bitlen_powi_bounds(1) [OF n] e by simp
    also have "\<dots> \<le> x" by simp
    finally have lo: "(2::rat) powi (expo x) \<le> x" .
    have "x < of_int \<lfloor>x\<rfloor> + 1" by linarith
    also have "\<dots> \<le> (2::rat) powi (expo x + 1)" using bitlen_powi_bounds(2) [OF n] e by simp
    finally show ?thesis using lo by simp
  next
    case False
    define z where "z = 1 / x"
    have z1: "1 < z" using False assms by (simp add: z_def)
    define m where "m = \<lceil>z\<rceil> - 1"
    have m: "0 < m" using z1 by (simp add: m_def)
    have e: "expo x = - bitlen m" using False assms by (simp add: expo_def m_def z_def)
    have "(2::rat) powi (bitlen m - 1) \<le> of_int m" by (rule bitlen_powi_bounds(1) [OF m])
    also have "\<dots> < z" unfolding m_def by linarith
    finally have zlo: "(2::rat) powi (bitlen m - 1) < z" .
    have "z \<le> of_int m + 1" unfolding m_def by simp
    also have "\<dots> \<le> 2 powi (bitlen m)" by (rule bitlen_powi_bounds(2) [OF m])
    finally have zhi: "z \<le> 2 powi (bitlen m)" .
    have x: "x = 1 / z" using assms by (simp add: z_def)
    have "(2::rat) powi (expo x) = 1 / 2 powi (bitlen m)" by (simp add: e power_int_minus_divide)
    also have "\<dots> \<le> 1 / z" using zhi z1 by (intro divide_left_mono) auto
    finally have lo: "(2::rat) powi (expo x) \<le> x" using x by simp
    have "1 / z < 1 / 2 powi (bitlen m - 1)"
      using zlo z1 by (intro divide_strict_left_mono mult_pos_pos) auto
    also have "\<dots> = (2::rat) powi (expo x + 1)"
      using power_int_minus_divide [of "2::rat" "bitlen m - 1"] by (simp add: e)
    finally show ?thesis using lo x by simp
  qed
  from both show "(2::rat) powi (expo x) \<le> x" and "x < (2::rat) powi (expo x + 1)" by auto
qed

lemma powi2_less_imp:
  assumes "(2::rat) powi a < 2 powi b"
  shows "a < b"
proof (rule ccontr)
  assume "\<not> a < b"
  then have "b \<le> a" by simp
  then have "(2::rat) powi b \<le> 2 powi a" by (intro power_int_increasing) auto
  with assms show False by simp
qed

lemma expo_mono:
  assumes "0 < x" "x \<le> y"
  shows "expo x \<le> expo y"
proof -
  have "(2::rat) powi (expo x) \<le> x" using expo_bounds(1) assms by simp
  also have "\<dots> \<le> y" by fact
  also have "\<dots> < (2::rat) powi (expo y + 1)" using expo_bounds(2) assms by simp
  finally have "expo x < expo y + 1" by (rule powi2_less_imp)
  then show ?thesis by simp
qed

lemma round_half_even_bounds:
  "of_int \<lfloor>y\<rfloor> \<le> (of_int (round_half_even y) :: rat)" "round_half_even y \<le> \<lfloor>y\<rfloor> + 1"
  by (simp_all add: round_half_even_def Let_def)

lemma round_half_even_of_int [simp]: "round_half_even (of_int n) = n"
  by (simp add: round_half_even_def)

lemma round_half_even_mono:
  assumes "x \<le> y"
  shows "round_half_even x \<le> round_half_even y"
proof (cases "\<lfloor>x\<rfloor> = \<lfloor>y\<rfloor>")
  case True
  then have "x - of_int \<lfloor>x\<rfloor> \<le> y - of_int \<lfloor>y\<rfloor>" using assms by simp
  then show ?thesis using True by (auto simp add: round_half_even_def Let_def)
next
  case False
  then have "\<lfloor>x\<rfloor> < \<lfloor>y\<rfloor>" using floor_mono [OF assms] by simp
  then have "round_half_even x \<le> \<lfloor>y\<rfloor>" using round_half_even_bounds(2) [of x] by simp
  also have "\<dots> \<le> round_half_even y" using round_half_even_bounds(1) [of y] by simp
  finally show ?thesis .
qed

lemma round_half_even_ge: "of_int n \<le> y \<Longrightarrow> n \<le> round_half_even y"
  using round_half_even_mono [of "of_int n" y] by simp

lemma round_half_even_le: "y \<le> of_int n \<Longrightarrow> round_half_even y \<le> n"
  using round_half_even_mono [of y "of_int n"] by simp

lemma ulp_pos: "0 < ulp x"
  by (simp add: ulp_def)

lemma fl_ulp: "x \<noteq> 0 \<Longrightarrow> fl x = of_int (round_half_even (x / ulp x)) * ulp x"
  by (simp add: fl_def)

lemma ulp_shift:
  "2 powi (max (expo x) (- 1022) + 1) = of_int (2 ^ 53) * ulp x"
  "2 powi (max (expo x) (- 1022)) = of_int (2 ^ 52) * ulp x"
proof -
  let ?E = "max (expo x) (- 1022)"
  have "(2::rat) powi (?E + 1) = 2 powi 53 * 2 powi (?E - 52)"
    using power_int_add [of "2::rat" 53 "?E - 52"] by (simp add: add.commute)
  then show "2 powi (?E + 1) = of_int (2 ^ 53) * ulp x" by (simp add: ulp_def)
  have "(2::rat) powi ?E = 2 powi 52 * 2 powi (?E - 52)"
    using power_int_add [of "2::rat" 52 "?E - 52"] by simp
  then show "2 powi ?E = of_int (2 ^ 52) * ulp x" by (simp add: ulp_def)
qed

lemma fl_nonneg: "0 \<le> x \<Longrightarrow> 0 \<le> fl x"
proof (cases "x = 0")
  case True then show ?thesis by (simp add: fl_def)
next
  case False
  assume "0 \<le> x"
  then have "of_int 0 \<le> x / ulp x" using ulp_pos [of x] by simp
  then have "0 \<le> round_half_even (x / ulp x)" by (rule round_half_even_ge)
  then show ?thesis using ulp_pos [of x] False by (simp add: fl_ulp)
qed

lemma fl_upper:
  assumes "0 < x"
  shows "fl x \<le> 2 powi (max (expo x) (- 1022) + 1)"
proof -
  have "x < 2 powi (expo x + 1)" by (rule expo_bounds(2) [OF assms])
  also have "\<dots> \<le> 2 powi (max (expo x) (- 1022) + 1)" by (intro power_int_increasing) auto
  also have "\<dots> = of_int (2 ^ 53) * ulp x" by (rule ulp_shift(1))
  finally have "x / ulp x \<le> of_int (2 ^ 53)" using ulp_pos [of x] by (simp add: pos_divide_le_eq)
  then have "round_half_even (x / ulp x) \<le> 2 ^ 53" by (rule round_half_even_le)
  then have "(of_int (round_half_even (x / ulp x)) :: rat) \<le> of_int (2 ^ 53)"
    by (simp only: of_int_le_iff)
  then have "of_int (round_half_even (x / ulp x)) * ulp x \<le> of_int (2 ^ 53) * ulp x"
    using ulp_pos [of x] by (intro mult_right_mono) auto
  then show ?thesis using assms by (simp only: ulp_shift(1) fl_ulp)
qed

lemma fl_lower:
  assumes "0 < x" "- 1022 \<le> expo x"
  shows "2 powi (expo x) \<le> fl x"
proof -
  have m: "max (expo x) (- 1022) = expo x" using assms by simp
  have s: "2 powi (expo x) = of_int (2 ^ 52) * ulp x" using ulp_shift(2) [of x] by (simp only: m)
  have "of_int (2 ^ 52) * ulp x \<le> x" using expo_bounds(1) [OF assms(1)] by (simp only: s)
  then have "of_int (2 ^ 52) \<le> x / ulp x" using ulp_pos [of x] by (simp add: pos_le_divide_eq)
  then have "2 ^ 52 \<le> round_half_even (x / ulp x)" by (rule round_half_even_ge)
  then have "(of_int (2 ^ 52) :: rat) \<le> of_int (round_half_even (x / ulp x))"
    by (simp only: of_int_le_iff)
  then have "of_int (2 ^ 52) * ulp x \<le> of_int (round_half_even (x / ulp x)) * ulp x"
    using ulp_pos [of x] by (intro mult_right_mono) auto
  moreover have "fl x = of_int (round_half_even (x / ulp x)) * ulp x"
    using assms(1) by (simp add: fl_ulp)
  ultimately show ?thesis by (simp only: s)
qed

text \<open>Rounding is monotone on the non-negative numbers.\<close>

lemma fl_mono:
  assumes "0 \<le> x" "x \<le> y"
  shows "fl x \<le> fl y"
proof (cases "x = 0")
  case True
  then show ?thesis using fl_nonneg [of y] assms by (simp add: fl_def)
next
  case False
  then have x: "0 < x" and y: "0 < y" using assms by auto
  have e: "expo x \<le> expo y" by (rule expo_mono [OF x assms(2)])
  show ?thesis
  proof (cases "max (expo x) (- 1022) = max (expo y) (- 1022)")
    case True
    then have u: "ulp x = ulp y" by (simp add: ulp_def)
    have "x / ulp y \<le> y / ulp y" using assms ulp_pos [of y] by (simp add: divide_right_mono)
    then have "round_half_even (x / ulp y) \<le> round_half_even (y / ulp y)"
      by (rule round_half_even_mono)
    then have "(of_int (round_half_even (x / ulp y)) :: rat) \<le> of_int (round_half_even (y / ulp y))"
      by (simp only: of_int_le_iff)
    then show ?thesis using x y ulp_pos [of y] by (simp add: fl_ulp u)
  next
    case False
    then have lt: "max (expo x) (- 1022) < expo y" and big: "- 1022 \<le> expo y" using e by auto
    have "fl x \<le> 2 powi (max (expo x) (- 1022) + 1)" by (rule fl_upper [OF x])
    also have "\<dots> \<le> 2 powi (expo y)" using lt by (intro power_int_increasing) auto
    also have "\<dots> \<le> fl y" by (rule fl_lower [OF y big])
    finally show ?thesis .
  qed
qed

subsection \<open>Evaluating a rounding from its exponent and significand\<close>

lemma expo_abs: "expo \<bar>x\<bar> = expo x"
  by (simp add: expo_def)

lemma expo_unique:
  assumes "2 powi e \<le> \<bar>x\<bar>" "\<bar>x\<bar> < 2 powi (e + 1)"
  shows "expo x = e"
proof -
  have "(0::rat) < 2 powi e" by simp
  with assms(1) have pos: "0 < \<bar>x\<bar>" by linarith
  have "(2::rat) powi (expo \<bar>x\<bar>) \<le> \<bar>x\<bar>" by (rule expo_bounds(1) [OF pos])
  also note assms(2)
  finally have a: "expo \<bar>x\<bar> < e + 1" by (rule powi2_less_imp)
  note assms(1)
  also have "\<bar>x\<bar> < 2 powi (expo \<bar>x\<bar> + 1)" by (rule expo_bounds(2) [OF pos])
  finally have "e < expo \<bar>x\<bar> + 1" by (rule powi2_less_imp)
  with a show ?thesis by (simp add: expo_abs)
qed

lemma round_half_even_cert:
  assumes "\<bar>y - of_int n\<bar> < 1 / 2 \<or> (\<bar>y - of_int n\<bar> = 1 / 2 \<and> even n)"
  shows "round_half_even y = n"
proof -
  consider (near) "\<bar>y - of_int n\<bar> < 1 / 2" "of_int n \<le> y"
    | (near') "\<bar>y - of_int n\<bar> < 1 / 2" "y < of_int n"
    | (up) "y = of_int n + 1 / 2" "even n"
    | (down) "y = of_int n - 1 / 2" "even n"
    using assms by (cases "of_int n \<le> y") (auto simp add: abs_if split: if_splits)
  then show ?thesis
  proof cases
    case near
    then have "\<lfloor>y\<rfloor> = n" by (intro floor_unique) linarith+
    with near show ?thesis by (simp add: round_half_even_def)
  next
    case near'
    then have f: "\<lfloor>y\<rfloor> = n - 1" by (intro floor_unique) (simp, linarith)+
    with near' have "1 / 2 < y - of_int \<lfloor>y\<rfloor>" by simp
    with f show ?thesis by (simp add: round_half_even_def)
  next
    case up
    then have "\<lfloor>y\<rfloor> = n" by (intro floor_unique) simp_all
    with up show ?thesis by (simp add: round_half_even_def)
  next
    case down
    then have "\<lfloor>y\<rfloor> = n - 1" by (intro floor_unique) simp_all
    with down show ?thesis by (simp add: round_half_even_def)
  qed
qed

lemma fl_cert:
  assumes "2 powi e \<le> \<bar>x\<bar>" "\<bar>x\<bar> < 2 powi (e + 1)" "- 1022 \<le> e"
    and "\<bar>x / 2 powi (e - 52) - of_int n\<bar> < 1 / 2
         \<or> (\<bar>x / 2 powi (e - 52) - of_int n\<bar> = 1 / 2 \<and> even n)"
  shows "fl x = of_int n * 2 powi (e - 52)"
proof -
  have "(0::rat) < 2 powi e" by simp
  with assms(1) have "0 < \<bar>x\<bar>" by linarith
  then have nz: "x \<noteq> 0" by simp
  have e: "expo x = e" by (rule expo_unique [OF assms(1,2)])
  then have u: "ulp x = 2 powi (e - 52)" using assms(3) by (simp add: ulp_def)
  show ?thesis using nz round_half_even_cert [OF assms(4)] by (simp add: fl_def u)
qed

lemma rnd_cert:
  assumes "2 powi e \<le> \<bar>x\<bar>" "\<bar>x\<bar> < 2 powi (e + 1)" "- 1022 \<le> e" "e < 1023"
    and "\<bar>x / 2 powi (e - 52) - of_int n\<bar> < 1 / 2
         \<or> (\<bar>x / 2 powi (e - 52) - of_int n\<bar> = 1 / 2 \<and> even n)"
  shows "rnd x = Fin (of_int n * 2 powi (e - 52))"
proof -
  let ?u = "(2::rat) powi (e - 52)"
  have f: "fl x = of_int n * ?u" by (rule fl_cert [OF assms(1-3,5)])
  have u: "0 < ?u" by simp
  have half: "\<bar>x / ?u - of_int n\<bar> \<le> 1 / 2" using assms(5) by auto
  have "\<bar>x\<bar> < of_int (2 ^ 53) * ?u"
    using assms(2) power_int_add [of "2::rat" 53 "e - 52"] by (simp add: add.commute)
  then have "\<bar>x / ?u\<bar> < of_int (2 ^ 53)" using u by (simp add: pos_divide_less_eq abs_mult)
  with half have "\<bar>(of_int n :: rat)\<bar> < of_int (2 ^ 53) + 1 / 2" by linarith
  then have "\<bar>(of_int n :: rat)\<bar> < of_int (2 ^ 53 + 1)" by simp
  then have "(of_int \<bar>n\<bar> :: rat) < of_int (2 ^ 53 + 1)" by simp
  then have "\<bar>n\<bar> < 2 ^ 53 + 1" by (simp only: of_int_less_iff)
  then have "\<bar>n\<bar> \<le> 2 ^ 53" by simp
  then have "(of_int \<bar>n\<bar> :: rat) \<le> of_int (2 ^ 53)" by (simp only: of_int_le_iff)
  then have "\<bar>fl x\<bar> \<le> of_int (2 ^ 53) * ?u"
    using u by (simp add: f abs_mult)
  also have "\<dots> = 2 powi (e + 1)"
    using power_int_add [of "2::rat" 53 "e - 52"] by (simp add: add.commute)
  also have "\<dots> < 2 powi 1024" using assms(4) by (intro power_int_strict_increasing) auto
  finally have b: "\<bar>fl x\<bar> < 2 powi 1024" .
  have "fl x = 0 \<or> expo (fl x) < 1024"
  proof (cases "fl x = 0")
    case False
    then have "(2::rat) powi (expo \<bar>fl x\<bar>) \<le> \<bar>fl x\<bar>" by (intro expo_bounds(1)) simp
    also note b
    finally have "expo \<bar>fl x\<bar> < 1024" by (rule powi2_less_imp)
    then show ?thesis by (simp add: expo_abs)
  qed simp
  then show ?thesis by (auto simp add: rnd_def f)
qed

lemma rnd_0: "rnd 0 = Fin 0"
  by (simp add: rnd_def fl_def)

lemma floor_numeral_quotient:
  "\<lfloor>(numeral a :: rat) / numeral b\<rfloor> = numeral a div numeral b"
  "\<lfloor>- ((numeral a :: rat) / numeral b)\<rfloor> = - numeral a div numeral b"
proof -
  show "\<lfloor>(numeral a :: rat) / numeral b\<rfloor> = numeral a div numeral b"
    using floor_divide_of_int_eq [of "numeral a" "numeral b", where ?'a = rat] by simp
  show "\<lfloor>- ((numeral a :: rat) / numeral b)\<rfloor> = - numeral a div numeral b"
    using floor_divide_of_int_eq [of "- numeral a" "numeral b", where ?'a = rat] by simp
qed

lemma fl_1: "fl 1 = 1"
  using fl_cert [of 0 1 4503599627370496] by simp

lemma fl_10: "fl 10 = 10"
  using fl_cert [of 3 10 5629499534213120] by simp

lemma fl_16: "fl 16 = 16"
  using fl_cert [of 4 16 4503599627370496] by simp

lemma fl_range: "fl (max_q + 2) = range_q"
  using fl_cert [of 1 "max_q + 2" 4953959590107546] by (simp add: max_q_def range_q_def)

lemma fl_top: "fl ((1 - 1 / 2 ^ 53) * 10) < 10"
  using fl_cert [of 3 "(1 - 1 / 2 ^ 53) * 10" 5629499534213119] by simp

text \<open>The roundings of the concrete operations evaluated below.\<close>

lemma rnd_1: "rnd (- 2) = Fin (- 2)"
  using rnd_cert [of 1 "- 2" "- 4503599627370496"] by simp

lemma rnd_2: "rnd (1 / 5) = Fin (3602879701896397 / 18014398509481984)"
  using rnd_cert [of "- 3" "1 / 5" 7205759403792794] by simp

lemma rnd_3: "rnd (39631676720860365 / 18014398509481984) = Fin (2476979795053773 / 1125899906842624)"
  using rnd_cert [of 1 "39631676720860365 / 18014398509481984" 4953959590107546] by simp

lemma rnd_4: "rnd (11 / 5) = Fin (2476979795053773 / 1125899906842624)"
  using rnd_cert [of 1 "11 / 5" 4953959590107546] by simp

lemma rnd_5: "rnd (11 / 50) = Fin (7926335344172073 / 36028797018963968)"
  using rnd_cert [of "- 3" "11 / 50" 7926335344172073] by simp

lemma rnd_6: "rnd (7 / 10) = Fin (3152519739159347 / 4503599627370496)"
  using rnd_cert [of "- 1" "7 / 10" 6305039478318694] by simp

lemma rnd_7: "rnd (803892533485633485 / 4503599627370496) = Fin (357 / 2)"
  using rnd_cert [of 7 "803892533485633485 / 4503599627370496" 6280410417856512] by simp

lemma rnd_8: "rnd (9) = Fin (9)"
  using rnd_cert [of 3 "9" 5066549580791808] by simp

lemma rnd_9: "rnd (1) = Fin (1)"
  using rnd_cert [of 0 "1" 4503599627370496] by simp

lemma rnd_10: "rnd (10) = Fin (10)"
  using rnd_cert [of 3 "10" 5629499534213120] by simp

lemma rnd_11: "rnd (16) = Fin (16)"
  using rnd_cert [of 4 "16" 4503599627370496] by simp

lemma rnd_12: "rnd (2) = Fin (2)"
  using rnd_cert [of 1 "2" 4503599627370496] by simp

lemma rnd_13: "rnd (45035996273704955 / 4503599627370496) = Fin (5629499534213119 / 562949953421312)"
  using rnd_cert [of 3 "45035996273704955 / 4503599627370496" 5629499534213119] by simp

lemma rnd_14: "rnd (7926335344172073 / 36028797018963968) = Fin (7926335344172073 / 36028797018963968)"
  using rnd_cert [of "- 3" "7926335344172073 / 36028797018963968" 7926335344172073] by simp

lemma rnd_15: "rnd (- (64131258693755863 / 36028797018963968)) = Fin (- (8016407336719483 / 4503599627370496))"
  using rnd_cert [of 0 "- (64131258693755863 / 36028797018963968)" "- 8016407336719483"] by simp

lemma rnd_16: "rnd (990791918021509 / 4503599627370496) = Fin (990791918021509 / 4503599627370496)"
  using rnd_cert [of "- 3" "990791918021509 / 4503599627370496" 7926335344172072] by simp

lemma rnd_17: "rnd (990791918021509 / 9907919180215092) = Fin (900719925474099 / 9007199254740992)"
  using rnd_cert [of "- 4" "990791918021509 / 9907919180215092" 7205759403792792] by simp

lemma rnd_18: "rnd (4503599627370495 / 4503599627370496) = Fin (4503599627370495 / 4503599627370496)"
  using rnd_cert [of "- 1" "4503599627370495 / 4503599627370496" 9007199254740990] by simp

lemma rnd_19: "rnd (7926335344172073 / 18014398509481984) = Fin (7926335344172073 / 18014398509481984)"
  using rnd_cert [of "- 2" "7926335344172073 / 18014398509481984" 7926335344172073] by simp

lemma rnd_20: "rnd (- (28102461674791895 / 18014398509481984)) = Fin (- (3512807709348987 / 2251799813685248))"
  using rnd_cert [of 0 "- (28102461674791895 / 18014398509481984)" "- 7025615418697974"] by simp

lemma rnd_21: "rnd (990791918021509 / 2251799813685248) = Fin (990791918021509 / 2251799813685248)"
  using rnd_cert [of "- 2" "990791918021509 / 2251799813685248" 7926335344172072] by simp

lemma rnd_22: "rnd (990791918021509 / 4953959590107546) = Fin (900719925474099 / 4503599627370496)"
  using rnd_cert [of "- 3" "990791918021509 / 4953959590107546" 7205759403792792] by simp

lemma rnd_23: "rnd (4503599627370495 / 2251799813685248) = Fin (4503599627370495 / 2251799813685248)"
  using rnd_cert [of 0 "4503599627370495 / 2251799813685248" 9007199254740990] by simp

lemma rnd_24: "rnd (23779006032516219 / 36028797018963968) = Fin (5944751508129055 / 9007199254740992)"
  using rnd_cert [of "- 1" "23779006032516219 / 36028797018963968" 5944751508129055] by simp

lemma rnd_25: "rnd (- (12069647001352929 / 9007199254740992)) = Fin (- (377176468792279 / 281474976710656))"
  using rnd_cert [of 0 "- (12069647001352929 / 9007199254740992)" "- 6034823500676464"] by simp

lemma rnd_26: "rnd (185773484629033 / 281474976710656) = Fin (185773484629033 / 281474976710656)"
  using rnd_cert [of "- 1" "185773484629033 / 281474976710656" 5944751508129056] by simp

lemma rnd_27: "rnd (743093938516132 / 2476979795053773) = Fin (1351079888211149 / 4503599627370496)"
  using rnd_cert [of "- 2" "743093938516132 / 2476979795053773" 5404319552844596] by simp

lemma rnd_28: "rnd (6755399441055745 / 2251799813685248) = Fin (6755399441055745 / 2251799813685248)"
  using rnd_cert [of 1 "6755399441055745 / 2251799813685248" 6755399441055745] by simp

lemma rnd_29: "rnd (7926335344172073 / 9007199254740992) = Fin (7926335344172073 / 9007199254740992)"
  using rnd_cert [of "- 1" "7926335344172073 / 9007199254740992" 7926335344172073] by simp

lemma rnd_30: "rnd (- (10088063165309911 / 9007199254740992)) = Fin (- (1261007895663739 / 1125899906842624))"
  using rnd_cert [of 0 "- (10088063165309911 / 9007199254740992)" "- 5044031582654956"] by simp

lemma rnd_31: "rnd (990791918021509 / 1125899906842624) = Fin (990791918021509 / 1125899906842624)"
  using rnd_cert [of "- 1" "990791918021509 / 1125899906842624" 7926335344172072] by simp

lemma rnd_32: "rnd (990791918021509 / 2476979795053773) = Fin (900719925474099 / 2251799813685248)"
  using rnd_cert [of "- 2" "990791918021509 / 2476979795053773" 7205759403792792] by simp

lemma rnd_33: "rnd (4503599627370495 / 1125899906842624) = Fin (4503599627370495 / 1125899906842624)"
  using rnd_cert [of 1 "4503599627370495 / 1125899906842624" 9007199254740990] by simp

lemma rnd_34: "rnd (39631676720860365 / 36028797018963968) = Fin (2476979795053773 / 2251799813685248)"
  using rnd_cert [of 0 "39631676720860365 / 36028797018963968" 4953959590107546] by simp

lemma rnd_35: "rnd (- (2026619832316723 / 2251799813685248)) = Fin (- (2026619832316723 / 2251799813685248))"
  using rnd_cert [of "- 1" "- (2026619832316723 / 2251799813685248)" "- 8106479329266892"] by simp

lemma rnd_36: "rnd (2476979795053773 / 2251799813685248) = Fin (2476979795053773 / 2251799813685248)"
  using rnd_cert [of 0 "2476979795053773 / 2251799813685248" 4953959590107546] by simp

lemma rnd_37: "rnd (1 / 2) = Fin (1 / 2)"
  using rnd_cert [of "- 1" "1 / 2" 4503599627370496] by simp

lemma rnd_38: "rnd (5) = Fin (5)"
  using rnd_cert [of 2 "5" 5629499534213120] by simp

lemma rnd_39: "rnd (23779006032516219 / 18014398509481984) = Fin (5944751508129055 / 4503599627370496)"
  using rnd_cert [of 0 "23779006032516219 / 18014398509481984" 5944751508129055] by simp

lemma rnd_40: "rnd (- (3062447746611937 / 4503599627370496)) = Fin (- (3062447746611937 / 4503599627370496))"
  using rnd_cert [of "- 1" "- (3062447746611937 / 4503599627370496)" "- 6124895493223874"] by simp

lemma rnd_41: "rnd (5944751508129055 / 4503599627370496) = Fin (5944751508129055 / 4503599627370496)"
  using rnd_cert [of 0 "5944751508129055 / 4503599627370496" 5944751508129055] by simp

lemma rnd_42: "rnd (5944751508129055 / 9907919180215092) = Fin (5404319552844595 / 9007199254740992)"
  using rnd_cert [of "- 1" "5944751508129055 / 9907919180215092" 5404319552844595] by simp

lemma rnd_43: "rnd (27021597764222975 / 4503599627370496) = Fin (6)"
  using rnd_cert [of 2 "27021597764222975 / 4503599627370496" 6755399441055744] by simp

lemma rnd_44: "rnd (55484347409204511 / 36028797018963968) = Fin (1733885856537641 / 1125899906842624)"
  using rnd_cert [of 0 "55484347409204511 / 36028797018963968" 6935543426150564] by simp

lemma rnd_45: "rnd (- (517913957147607 / 1125899906842624)) = Fin (- (517913957147607 / 1125899906842624))"
  using rnd_cert [of "- 2" "- (517913957147607 / 1125899906842624)" "- 8286623314361712"] by simp

lemma rnd_46: "rnd (1733885856537641 / 1125899906842624) = Fin (1733885856537641 / 1125899906842624)"
  using rnd_cert [of 0 "1733885856537641 / 1125899906842624" 6935543426150564] by simp

lemma rnd_47: "rnd (1733885856537641 / 2476979795053773) = Fin (3152519739159347 / 4503599627370496)"
  using rnd_cert [of "- 1" "1733885856537641 / 2476979795053773" 6305039478318694] by simp

lemma rnd_48: "rnd (15762598695796735 / 2251799813685248) = Fin (7)"
  using rnd_cert [of 2 "15762598695796735 / 2251799813685248" 7881299347898368] by simp

lemma rnd_49: "rnd (7926335344172073 / 4503599627370496) = Fin (7926335344172073 / 4503599627370496)"
  using rnd_cert [of 0 "7926335344172073 / 4503599627370496" 7926335344172073] by simp

lemma rnd_50: "rnd (- (1080863910568919 / 4503599627370496)) = Fin (- (1080863910568919 / 4503599627370496))"
  using rnd_cert [of "- 3" "- (1080863910568919 / 4503599627370496)" "- 8646911284551352"] by simp

lemma rnd_51: "rnd (2642111781390691 / 3302639726738364) = Fin (7205759403792793 / 9007199254740992)"
  using rnd_cert [of "- 1" "2642111781390691 / 3302639726738364" 7205759403792793] by simp

lemma rnd_52: "rnd (36028797018963965 / 4503599627370496) = Fin (9007199254740991 / 1125899906842624)"
  using rnd_cert [of 2 "36028797018963965 / 4503599627370496" 9007199254740991] by simp

lemma rnd_53: "rnd (71337018097548657 / 36028797018963968) = Fin (4458563631096791 / 2251799813685248)"
  using rnd_cert [of 0 "71337018097548657 / 36028797018963968" 8917127262193582] by simp

lemma rnd_54: "rnd (- (45035996273705 / 2251799813685248)) = Fin (- (45035996273705 / 2251799813685248))"
  using rnd_cert [of "- 6" "- (45035996273705 / 2251799813685248)" "- 5764607523034240"] by simp

lemma rnd_55: "rnd (4458563631096791 / 2251799813685248) = Fin (4458563631096791 / 2251799813685248)"
  using rnd_cert [of 0 "4458563631096791 / 2251799813685248" 8917127262193582] by simp

lemma rnd_56: "rnd (4458563631096791 / 4953959590107546) = Fin (2026619832316723 / 2251799813685248)"
  using rnd_cert [of "- 1" "4458563631096791 / 4953959590107546" 8106479329266892] by simp

lemma rnd_57: "rnd (10133099161583615 / 1125899906842624) = Fin (9)"
  using rnd_cert [of 3 "10133099161583615 / 1125899906842624" 5066549580791808] by simp

lemma rnd_58: "rnd (2251799813685248 / 2476979795053773) = Fin (8188362958855447 / 9007199254740992)"
  using rnd_cert [of "- 1" "2251799813685248 / 2476979795053773" 8188362958855447] by simp

lemma rnd_59: "rnd (40941814794277235 / 4503599627370496) = Fin (2558863424642327 / 281474976710656)"
  using rnd_cert [of 3 "40941814794277235 / 4503599627370496" 5117726849284654] by simp

lemma rnd_60: "rnd (2476979795053773 / 11258999068426240) = Fin (3963167672086037 / 18014398509481984)"
  using rnd_cert [of "- 3" "2476979795053773 / 11258999068426240" 7926335344172074] by simp

lemma rnd_61: "rnd (- (32065629346877931 / 18014398509481984)) = Fin (- (8016407336719483 / 4503599627370496))"
  using rnd_cert [of 0 "- (32065629346877931 / 18014398509481984)" "- 8016407336719483"] by simp

lemma rnd_62: "rnd (3963167672086037 / 18014398509481984) = Fin (3963167672086037 / 18014398509481984)"
  using rnd_cert [of "- 3" "3963167672086037 / 18014398509481984" 7926335344172074] by simp

lemma rnd_63: "rnd (3963167672086037 / 9007199254740992) = Fin (3963167672086037 / 9007199254740992)"
  using rnd_cert [of "- 2" "3963167672086037 / 9007199254740992" 7926335344172074] by simp

lemma rnd_64: "rnd (- (14051230837395947 / 9007199254740992)) = Fin (- (3512807709348987 / 2251799813685248))"
  using rnd_cert [of 0 "- (14051230837395947 / 9007199254740992)" "- 7025615418697974"] by simp

lemma rnd_65: "rnd (- (24139294002705859 / 18014398509481984)) = Fin (- (6034823500676465 / 4503599627370496))"
  using rnd_cert [of 0 "- (24139294002705859 / 18014398509481984)" "- 6034823500676465"] by simp

lemma rnd_66: "rnd (11889503016258111 / 18014398509481984) = Fin (185773484629033 / 281474976710656)"
  using rnd_cert [of "- 1" "11889503016258111 / 18014398509481984" 5944751508129056] by simp

lemma rnd_67: "rnd (- (377176468792279 / 281474976710656)) = Fin (- (377176468792279 / 281474976710656))"
  using rnd_cert [of 0 "- (377176468792279 / 281474976710656)" "- 6034823500676464"] by simp

lemma rnd_68: "rnd (- (20176126330619819 / 18014398509481984)) = Fin (- (5044031582654955 / 4503599627370496))"
  using rnd_cert [of 0 "- (20176126330619819 / 18014398509481984)" "- 5044031582654955"] by simp

lemma rnd_69: "rnd (3963167672086037 / 4503599627370496) = Fin (3963167672086037 / 4503599627370496)"
  using rnd_cert [of "- 1" "3963167672086037 / 4503599627370496" 7926335344172074] by simp

lemma rnd_70: "rnd (- (5044031582654955 / 4503599627370496)) = Fin (- (5044031582654955 / 4503599627370496))"
  using rnd_cert [of 0 "- (5044031582654955 / 4503599627370496)" "- 5044031582654955"] by simp

lemma rnd_71: "rnd (- (16212958658533783 / 18014398509481984)) = Fin (- (2026619832316723 / 2251799813685248))"
  using rnd_cert [of "- 1" "- (16212958658533783 / 18014398509481984)" "- 8106479329266892"] by simp

lemma rnd_72: "rnd (19815838360430185 / 18014398509481984) = Fin (2476979795053773 / 2251799813685248)"
  using rnd_cert [of 0 "19815838360430185 / 18014398509481984" 4953959590107546] by simp

lemma rnd_73: "rnd (- (12249790986447747 / 18014398509481984)) = Fin (- (3062447746611937 / 4503599627370496))"
  using rnd_cert [of "- 1" "- (12249790986447747 / 18014398509481984)" "- 6124895493223874"] by simp

lemma rnd_74: "rnd (11889503016258111 / 9007199254740992) = Fin (185773484629033 / 140737488355328)"
  using rnd_cert [of 0 "11889503016258111 / 9007199254740992" 5944751508129056] by simp

lemma rnd_75: "rnd (- (95701492081623 / 140737488355328)) = Fin (- (95701492081623 / 140737488355328))"
  using rnd_cert [of "- 1" "- (95701492081623 / 140737488355328)" "- 6124895493223872"] by simp

lemma rnd_76: "rnd (- (8286623314361707 / 18014398509481984)) = Fin (- (8286623314361707 / 18014398509481984))"
  using rnd_cert [of "- 2" "- (8286623314361707 / 18014398509481984)" "- 8286623314361707"] by simp

lemma rnd_77: "rnd (27742173704602259 / 18014398509481984) = Fin (6935543426150565 / 4503599627370496)"
  using rnd_cert [of 0 "27742173704602259 / 18014398509481984" 6935543426150565] by simp

lemma rnd_78: "rnd (- (2071655828590427 / 4503599627370496)) = Fin (- (2071655828590427 / 4503599627370496))"
  using rnd_cert [of "- 2" "- (2071655828590427 / 4503599627370496)" "- 8286623314361708"] by simp

lemma rnd_79: "rnd (- (4323455642275671 / 18014398509481984)) = Fin (- (4323455642275671 / 18014398509481984))"
  using rnd_cert [of "- 3" "- (4323455642275671 / 18014398509481984)" "- 8646911284551342"] by simp

lemma rnd_80: "rnd (3963167672086037 / 2251799813685248) = Fin (3963167672086037 / 2251799813685248)"
  using rnd_cert [of 0 "3963167672086037 / 2251799813685248" 7926335344172074] by simp

lemma rnd_81: "rnd (- (540431955284459 / 2251799813685248)) = Fin (- (540431955284459 / 2251799813685248))"
  using rnd_cert [of "- 3" "- (540431955284459 / 2251799813685248)" "- 8646911284551344"] by simp

lemma rnd_82: "rnd (- (360287970189635 / 18014398509481984)) = Fin (- (360287970189635 / 18014398509481984))"
  using rnd_cert [of "- 6" "- (360287970189635 / 18014398509481984)" "- 5764607523034160"] by simp

lemma rnd_83: "rnd (35668509048774333 / 18014398509481984) = Fin (8917127262193583 / 4503599627370496)"
  using rnd_cert [of 0 "35668509048774333 / 18014398509481984" 8917127262193583] by simp

lemma rnd_84: "rnd (- (90071992547409 / 4503599627370496)) = Fin (- (90071992547409 / 4503599627370496))"
  using rnd_cert [of "- 6" "- (90071992547409 / 4503599627370496)" "- 5764607523034176"] by simp

lemma rnd_85: "rnd (3602879701896401 / 18014398509481984) = Fin (3602879701896401 / 18014398509481984)"
  using rnd_cert [of "- 3" "3602879701896401 / 18014398509481984" 7205759403792802] by simp

lemma rnd_86: "rnd (- 180) = Fin (- 180)"
  using rnd_cert [of 7 "- 180" "- 6333186975989760"] by simp

lemma rnd_87: "rnd (180) = Fin (180)"
  using rnd_cert [of 7 "180" 6333186975989760] by simp

lemma rnd_88: "rnd (- 90) = Fin (- 90)"
  using rnd_cert [of 6 "- 90" "- 6333186975989760"] by simp

lemma rnd_89: "rnd (90) = Fin (90)"
  using rnd_cert [of 6 "90" 6333186975989760] by simp

lemma rnd_90: "rnd (- (195 / 2)) = Fin (- (195 / 2))"
  using rnd_cert [of 6 "- (195 / 2)" "- 6860952557322240"] by simp

lemma rnd_91: "rnd (- 80) = Fin (- 80)"
  using rnd_cert [of 6 "- 80" "- 5629499534213120"] by simp

lemma rnd_92: "rnd (25) = Fin (25)"
  using rnd_cert [of 4 "25" 7036874417766400] by simp

lemma rnd_93: "rnd (61 / 2) = Fin (61 / 2)"
  using rnd_cert [of 4 "61 / 2" 8584986789675008] by simp

lemmas rnd_evals =
  rnd_1 rnd_2 rnd_3 rnd_4 rnd_5 rnd_6 rnd_7 rnd_8 rnd_9 rnd_10 rnd_11 rnd_12 rnd_13 rnd_14
  rnd_15 rnd_16 rnd_17 rnd_18 rnd_19 rnd_20 rnd_21 rnd_22 rnd_23 rnd_24 rnd_25 rnd_26 rnd_27
  rnd_28 rnd_29 rnd_30 rnd_31 rnd_32 rnd_33 rnd_34 rnd_35 rnd_36 rnd_37 rnd_38 rnd_39 rnd_40
  rnd_41 rnd_42 rnd_43 rnd_44 rnd_45 rnd_46 rnd_47 rnd_48 rnd_49 rnd_50 rnd_51 rnd_52 rnd_53
  rnd_54 rnd_55 rnd_56 rnd_57 rnd_58 rnd_59 rnd_60 rnd_61 rnd_62 rnd_63 rnd_64 rnd_65 rnd_66
  rnd_67 rnd_68 rnd_69 rnd_70 rnd_71 rnd_72 rnd_73 rnd_74 rnd_75 rnd_76 rnd_77 rnd_78 rnd_79
  rnd_80 rnd_81 rnd_82 rnd_83 rnd_84 rnd_85 rnd_86 rnd_87 rnd_88 rnd_89 rnd_90 rnd_91 rnd_92
  rnd_93

text \<open>No binary64 value lies strictly between \<open>1 - 2 powi (- 53)\<close> and \<open>1\<close>.\<close>

lemma fl_below_1:
  assumes "0 \<le> x" "fl x < 1"
  shows "fl x \<le> 1 - 1 / 2 ^ 53"
proof (cases "x = 0")
  case True then show ?thesis by (simp add: fl_def)
next
  case False
  then have x: "0 < x" using assms by simp
  have "x < 1"
  proof (rule ccontr)
    assume "\<not> x < 1"
    then have "fl 1 \<le> fl x" by (intro fl_mono) auto
    with assms(2) show False by (simp add: fl_1)
  qed
  have "(2::rat) powi (expo x) \<le> x" by (rule expo_bounds(1) [OF x])
  also have "\<dots> < 2 powi 0" using \<open>x < 1\<close> by simp
  finally have e: "expo x < 0" by (rule powi2_less_imp)
  let ?E = "max (expo x) (- 1022)"
  show ?thesis
  proof (cases "?E = - 1")
    case True
    then have u: "ulp x = 1 / 2 ^ 53" by (simp add: ulp_def power_int_minus_divide)
    let ?n = "round_half_even (x / ulp x)"
    have f: "fl x = of_int ?n / 2 ^ 53" using x by (simp add: fl_ulp u)
    with assms(2) have "(of_int ?n :: rat) < of_int (2 ^ 53)" by (simp add: pos_divide_less_eq)
    then have "?n < 2 ^ 53" by (simp only: of_int_less_iff)
    then have "?n \<le> 2 ^ 53 - 1" by simp
    then have "(of_int ?n :: rat) \<le> of_int (2 ^ 53 - 1)" by (simp only: of_int_le_iff)
    then show ?thesis by (simp add: f field_simps)
  next
    case False
    then have "?E + 1 \<le> - 1" using e by auto
    have "fl x \<le> 2 powi (?E + 1)" by (rule fl_upper [OF x])
    also have "\<dots> \<le> 2 powi (- 1)"
      using \<open>?E + 1 \<le> - 1\<close> by (intro power_int_increasing) auto
    also have "\<dots> \<le> 1 - 1 / 2 ^ 53" by (simp add: power_int_minus_divide)
    finally show ?thesis .
  qed
qed

text \<open>A rounded value of moderate size is finite.\<close>

lemma rnd_finite:
  assumes "0 \<le> x" "x \<le> 16"
  shows "rnd x = Fin (fl x)" and "0 \<le> fl x" and "fl x \<le> 16"
proof -
  show nonneg: "0 \<le> fl x" by (rule fl_nonneg [OF assms(1)])
  show le: "fl x \<le> 16" using fl_mono [OF assms] by (simp add: fl_16)
  show "rnd x = Fin (fl x)"
  proof (cases "fl x = 0")
    case True then show ?thesis by (simp add: rnd_def)
  next
    case False
    then have pos: "0 < fl x" using nonneg by simp
    have "(2::rat) powi (expo (fl x)) \<le> fl x" by (rule expo_bounds(1) [OF pos])
    also have "\<dots> \<le> 2 powi 4" using le by simp
    also have "(2::rat) powi 4 < 2 powi 1024" by (intro power_int_strict_increasing) auto
    finally have "expo (fl x) < 1024" by (rule powi2_less_imp)
    then show ?thesis by (simp add: rnd_def)
  qed
qed

section \<open>The colour ramp: both renderers\<close>

lemma min_val_eq: "min_val = Fin (- 2)"
  by (simp add: min_val_def js_lit_def rnd_evals)

lemma max_val_eq: "max_val = Fin max_q"
  by (simp add: max_val_def js_lit_def rnd_evals max_q_def)

lemma range_val_eq: "range_val = Fin range_q"
  by (simp add: range_val_def js_sub_def min_val_eq max_val_eq max_q_def range_q_def rnd_evals)

lemma palette_length: "length purpleGradientColors = 10"
  by (simp add: purpleGradientColors_def)

lemma numColors_eq: "numColors = Fin 10"
  by (simp add: numColors_def js_num_def palette_length)

lemma ten_minus_one: "js_sub (Fin 10) (Fin 1) = Fin 9"
  by (simp add: js_sub_def rnd_evals)

lemma colorRamp_eq:
  "colorRamp = [Some (248, 244, 255), Some (232, 213, 242), Some (212, 179, 232),
     Some (193, 145, 222), Some (189, 111, 203), Some (168, 85, 199), Some (147, 51, 234),
     Some (124, 58, 237), Some (107, 33, 168), Some (88, 28, 135)]"
  by code_simp

lemma colorRamp_len: "js_num (length colorRamp) = Fin 10"
  by (simp add: colorRamp_def js_num_def palette_length)

lemma alpha_eq: "ToUint8Clamp (js_mul (Fin 255) (js_lit (7 / 10))) = 178"
  by (simp add: js_lit_def rnd_evals round_half_even_def floor_numeral_quotient)

lemma lit_eq: "js_lit (- 2) = Fin (- 2)" "js_lit (22 / 10) = Fin range_q"
  by (simp_all add: js_lit_def rnd_evals range_q_def)

lemma range_q_pos: "0 < range_q" "range_q \<le> 16"
  by (simp_all add: range_q_def)

lemma max_q_bounds: "- 2 \<le> max_q" "max_q + 2 \<le> 16"
  by (simp_all add: max_q_def)


lemma ramp_steps:
  assumes "- 2 \<le> c" "c \<le> max_q"
  shows "js_div (js_sub (Fin c) min_val) range_val = Fin (ramp_norm c)"
    and "0 \<le> ramp_norm c" and "ramp_norm c \<le> 1"
    and "js_mul (Fin (ramp_norm c)) (Fin 10) = Fin (fl (ramp_norm c * 10))"
    and "0 \<le> fl (ramp_norm c * 10)" and "fl (ramp_norm c * 10) \<le> 10"
    and "ramp_norm c \<noteq> 1 \<Longrightarrow> fl (ramp_norm c * 10) < 10"
proof -
  let ?s = "fl (c + 2)"
  let ?n = "ramp_norm c"
  have c: "0 \<le> c + 2" "c + 2 \<le> 16" using assms max_q_bounds by auto
  have s: "rnd (c + 2) = Fin ?s" "0 \<le> ?s" using rnd_finite [OF c] by auto
  have sR: "?s \<le> range_q" using fl_mono [of "c + 2" "max_q + 2"] assms by (simp add: fl_range)
  have sub: "js_sub (Fin c) min_val = Fin ?s" by (simp add: js_sub_def min_val_eq s)
  have q: "0 \<le> ?s / range_q" "?s / range_q \<le> 1" using s sR range_q_pos by simp_all
  then have q16: "?s / range_q \<le> 16" by simp
  have n: "rnd (?s / range_q) = Fin ?n" and n0: "0 \<le> ?n"
    using rnd_finite [OF q(1) q16] by (auto simp add: ramp_norm_def)
  have n1: "?n \<le> 1" using fl_mono [OF q] by (simp add: fl_1 ramp_norm_def)
  show "js_div (js_sub (Fin c) min_val) range_val = Fin ?n"
    using range_q_pos by (simp add: sub range_val_eq n)
  show "0 \<le> ?n" by (rule n0)
  show "?n \<le> 1" by (rule n1)
  have p: "0 \<le> ?n * 10" "?n * 10 \<le> 10" using n0 n1 by auto
  then have p16: "?n * 10 \<le> 16" by simp
  show "js_mul (Fin ?n) (Fin 10) = Fin (fl (?n * 10))" using rnd_finite [OF p(1) p16] by simp
  show "0 \<le> fl (?n * 10)" by (rule fl_nonneg [OF p(1)])
  show "fl (?n * 10) \<le> 10" using fl_mono [OF p] by (simp add: fl_10)
  show "fl (?n * 10) < 10" if "?n \<noteq> 1"
  proof -
    from that n1 have "fl (?s / range_q) < 1" by (simp add: ramp_norm_def)
    then have "?n \<le> 1 - 1 / 2 ^ 53" using fl_below_1 [OF q(1)] by (simp add: ramp_norm_def)
    then have "?n * 10 \<le> (1 - 1 / 2 ^ 53) * 10" by simp
    then have "fl (?n * 10) \<le> fl ((1 - 1 / 2 ^ 53) * 10)" by (rule fl_mono [OF p(1)])
    with fl_top show ?thesis by simp
  qed
qed

lemma ramp_index_less: "ramp_index c < 10"
  by (simp add: ramp_index_def)

lemma arr_get_int:
  "0 \<le> i \<Longrightarrow> i < int (length xs) \<Longrightarrow> arr_get xs (Fin (of_int i)) = Some (xs ! nat i)"
  by simp

lemma geo_color:
  assumes "- 2 \<le> c" "c \<le> max_q"
    and "Math_max min_val (Math_min max_val x) = Fin c" "x \<noteq> NaN" "\<not> js_lt x min_val"
  shows "pixelValuesToColorFn (Num x # rest) = RetColor (purpleGradientColors ! ramp_index c)"
proof -
  note st = ramp_steps [OF assms(1,2)]
  let ?m = "fl (ramp_norm c * 10)"
  show ?thesis
  proof (cases "ramp_norm c = 1")
    case True
    then have "ramp_index c = 9" by (simp add: ramp_index_def fl_10)
    moreover have "arr_get purpleGradientColors (Fin 9) = Some (purpleGradientColors ! 9)"
      using arr_get_int [of 9 purpleGradientColors] by (simp add: palette_length)
    ultimately show ?thesis
      using assms(3-5) True st(1)
      by (simp add: pixelValuesToColorFn_def js_isNaN_def numColors_eq ten_minus_one)
  next
    case False
    then have lt: "?m < 10" by (rule st(7))
    then have fl9: "\<lfloor>?m\<rfloor> \<le> 9" by (simp add: floor_le_iff)
    have fl0: "0 \<le> \<lfloor>?m\<rfloor>" using st(5) by simp
    have idx: "ramp_index c = nat \<lfloor>?m\<rfloor>" using fl9 by (simp add: ramp_index_def)
    have "arr_get purpleGradientColors (Fin (of_int \<lfloor>?m\<rfloor>)) = Some (purpleGradientColors ! nat \<lfloor>?m\<rfloor>)"
      using fl0 fl9 by (intro arr_get_int) (simp_all add: palette_length)
    then show ?thesis
      using assms(3-5) False st(1,4)
      by (simp add: pixelValuesToColorFn_def js_isNaN_def numColors_eq idx)
  qed
qed

lemma ToUint8Clamp_nat: "r \<le> 255 \<Longrightarrow> ToUint8Clamp (js_num r) = r"
proof -
  assume r: "r \<le> 255"
  have "round_half_even (of_int (int r)) = int r" by (rule round_half_even_of_int)
  then have "nat (round_half_even (of_nat r)) = r" by simp
  then show ?thesis using r by (auto simp add: js_num_def)
qed

lemma store_rgba:
  assumes "r \<le> 255" "g \<le> 255" "b \<le> 255"
  shows "store (store (store (store [0, 0, 0, 0] (0 * 4) (js_num r)) (0 * 4 + 1) (js_num g))
                      (0 * 4 + 2) (js_num b))
               (0 * 4 + 3) (js_mul (Fin 255) (js_lit (7 / 10))) = [r, g, b, 178]"
  using assms by (simp add: store_def ToUint8Clamp_nat alpha_eq)

lemma paint_entry:
  assumes "k < 10"
  shows "(case arr_get colorRamp (Fin (of_int (int k))) of
        None \<Rightarrow> store [0, 0, 0, 0] (0 * 4 + 3) (Fin 0)
      | Some None \<Rightarrow> store [0, 0, 0, 0] (0 * 4 + 3) (Fin 0)
      | Some (Some (r, g, b)) \<Rightarrow>
          store (store (store (store [0, 0, 0, 0] (0 * 4) (js_num r)) (0 * 4 + 1) (js_num g))
                       (0 * 4 + 2) (js_num b))
                (0 * 4 + 3) (js_mul (Fin 255) (js_lit (7 / 10)))) = palette_rgba k"
proof -
  have len: "length colorRamp = 10" by (simp add: colorRamp_def palette_length)
  have a: "arr_get colorRamp (Fin (of_int (int k))) = Some (colorRamp ! k)"
    using assms arr_get_int [of "int k" colorRamp] by (simp add: len)
  have h: "hexToRgb (purpleGradientColors ! k) = colorRamp ! k"
    using assms by (simp add: colorRamp_def palette_length)
  have "\<forall>x \<in> set colorRamp. \<exists>r g b. x = Some (r, g, b) \<and> r \<le> 255 \<and> g \<le> 255 \<and> b \<le> 255"
    by (simp add: colorRamp_eq)
  moreover have "colorRamp ! k \<in> set colorRamp" using assms by (simp add: len)
  ultimately obtain r g b where rgb: "colorRamp ! k = Some (r, g, b)" "r \<le> 255" "g \<le> 255" "b \<le> 255"
    by blast
  show ?thesis
    by (simp only: a h rgb(1) palette_rgba_def option.case prod.case store_rgba [OF rgb(2-4)])
qed

lemma Math_min_9: "Math_min (Fin 9) (Fin (of_int j)) = Fin (of_int (min 9 j))"
  by (simp add: Math_min_def min_def)

lemma canvas_color:
  assumes "- 2 \<le> c" "c \<le> max_q"
    and "Math_max min_val (Math_min max_val (toNumber v)) = Fin c"
    and "v \<noteq> Undefined" "toNumber v \<noteq> NaN" "\<not> js_lt (toNumber v) min_val"
  shows "canvas_pixel v = palette_rgba (ramp_index c)"
proof -
  note st = ramp_steps [OF assms(1,2)]
  let ?m = "fl (ramp_norm c * 10)"
  have "0 \<le> min 9 \<lfloor>?m\<rfloor>" using st(5) by simp
  then have "of_int (min 9 \<lfloor>?m\<rfloor>) = (of_int (int (ramp_index c)) :: rat)"
    by (simp add: ramp_index_def)
  then have idx: "Math_min (js_sub (js_num (length colorRamp)) (Fin 1))
      (Math_floor (js_mul (js_div (js_sub (Math_max min_val (Math_min max_val (toNumber v))) min_val)
         range_val) (js_num (length colorRamp)))) = Fin (of_int (int (ramp_index c)))"
    using assms(3) st(1,4) by (simp add: colorRamp_len ten_minus_one Math_min_9)
  have cond: "(v = Undefined \<or> js_isNaN v \<or> js_lt (toNumber v) min_val) = False"
    using assms(4-6) by (simp add: js_isNaN_def)
  show ?thesis
    unfolding canvas_pixel_def paint_def Let_def
    by (simp only: cond if_False idx) (rule paint_entry [OF ramp_index_less])
qed


lemma js_le_min: "js_le min_val (Fin q) = (- 2 \<le> q)"
  by (auto simp add: js_le_def min_val_eq)

lemma js_le_max: "js_le (Fin q) max_val = (q \<le> max_q)"
  by (auto simp add: js_le_def max_val_eq)

lemma clamp_fin:
  assumes "- 2 \<le> q"
  shows "Math_max min_val (Math_min max_val (Fin q)) = Fin (min q max_q)"
  using assms max_q_bounds(1) by (auto simp add: Math_max_def Math_min_def min_val_eq max_val_eq min_def)

lemma clamp_posinf: "Math_max min_val (Math_min max_val PosInf) = Fin max_q"
  using max_q_bounds(1) by (auto simp add: Math_max_def Math_min_def min_val_eq max_val_eq)

lemma decile_index_eq:
  assumes "- 2 \<le> c" "c \<le> max_q"
  shows "decile_index (Fin c) = js_num (ramp_index c)"
proof -
  note st = ramp_steps [OF assms]
  have "0 \<le> min 9 \<lfloor>fl (ramp_norm c * 10)\<rfloor>" using st(5) by simp
  then have "of_int (min 9 \<lfloor>fl (ramp_norm c * 10)\<rfloor>) = (of_nat (ramp_index c) :: rat)"
    by (simp add: ramp_index_def)
  then show ?thesis
    using st(1,4) unfolding decile_index_def lit_eq
    by (simp add: min_val_eq range_val_eq Math_min_9 js_num_def)
qed

lemma transparent_pixel: "store [0, 0, 0, 0] (0 * 4 + 3) (Fin 0) = [0, 0, 0, 0]"
  by (simp add: store_def)

lemma in_domain:
  assumes "- 2 \<le> q"
  shows "pixelValuesToColorFn (Num (Fin q) # rest) = RetColor (purpleGradientColors ! ramp_index (min q max_q))"
    and "canvas_pixel (Num (Fin q)) = palette_rgba (ramp_index (min q max_q))"
proof -
  have c: "- 2 \<le> min q max_q" "min q max_q \<le> max_q" using assms max_q_bounds(1) by auto
  have nlt: "\<not> js_lt (Fin q) min_val" using assms by (simp add: min_val_eq)
  show "pixelValuesToColorFn (Num (Fin q) # rest) = RetColor (purpleGradientColors ! ramp_index (min q max_q))"
    by (rule geo_color [OF c clamp_fin [OF assms] _ nlt]) simp
  show "canvas_pixel (Num (Fin q)) = palette_rgba (ramp_index (min q max_q))"
    using nlt by (intro canvas_color [OF c]) (simp_all add: clamp_fin [OF assms])
qed

lemma at_posinf:
  shows "pixelValuesToColorFn (Num PosInf # rest) = RetColor (purpleGradientColors ! ramp_index max_q)"
    and "canvas_pixel (Num PosInf) = palette_rgba (ramp_index max_q)"
proof -
  have c: "- 2 \<le> max_q" "max_q \<le> max_q" using max_q_bounds(1) by auto
  have nlt: "\<not> js_lt PosInf min_val" by (simp add: min_val_eq)
  show "pixelValuesToColorFn (Num PosInf # rest) = RetColor (purpleGradientColors ! ramp_index max_q)"
    by (rule geo_color [OF c clamp_posinf _ nlt]) simp
  show "canvas_pixel (Num PosInf) = palette_rgba (ramp_index max_q)"
    using nlt by (intro canvas_color [OF c]) (simp_all add: clamp_posinf)
qed

lemma below_domain:
  assumes "v = Undefined \<or> v = Num NaN \<or> (\<exists>x. v = Num x \<and> js_lt x min_val)"
  shows "pixelValuesToColorFn (v # rest) = RetNull"
    and "paint v i data = store data (i * 4 + 3) (Fin 0)"
  using assms by (auto simp add: pixelValuesToColorFn_def paint_def js_isNaN_def)


lemma palette_rgba_eq:
  "map palette_rgba [0, 1, 2, 3, 4, 5, 6, 7, 8, 9] =
     [[248, 244, 255, 178], [232, 213, 242, 178], [212, 179, 232, 178], [193, 145, 222, 178],
      [189, 111, 203, 178], [168, 85, 199, 178], [147, 51, 234, 178], [124, 58, 237, 178],
      [107, 33, 168, 178], [88, 28, 135, 178]]"
  by code_simp

lemmas ramp_eval =
  decile_index_def boundary_def js_lit_def js_sub_def js_num_def Math_min_def
  floor_numeral_quotient rnd_evals rnd_0

lemma endpoints: "decile_index min_val = js_num 0" "decile_index max_val = js_num 9"
  by (simp_all add: min_val_eq max_val_eq max_q_def ramp_eval)

lemma boundaries:
  "map (\<lambda>k. decile_index (boundary k)) [1, 2, 3, 4, 5, 6, 7, 8, 9]
     = map js_num [0, 1, 3, 3, 5, 6, 7, 7, 9]"
  by (simp add: ramp_eval)

lemma layer_opacity:
  "map_option opacity (currentLayer (step (s\<lparr>mapRef := True\<rparr>) (LoadEnds r (Decoded g))))
     = Some (js_lit (7 / 10))"
  by (simp add: loadTiffData_finish_def tiffData_effect_def)

text \<open>
  C1, as the code has it. For every value \<open>v\<close> of the closed interval from \<open>-2.0\<close> to \<open>0.2\<close>
  both renderers show one of the ten palette colours, the one at the index
  \<open>min(9, floor((v - (-2.0)) / 2.2 * 10))\<close> computed in binary64 arithmetic: the callback
  returns the palette string for a layer of opacity \<open>0.7\<close>, the canvas loop writes its
  three colour bytes and the alpha byte \<open>178\<close>. The value \<open>-2.0\<close> gets index \<open>0\<close> and \<open>0.2\<close>
  index \<open>9\<close>. The values \<open>-2.0 + k * 0.22\<close> for \<open>k = 1, \<dots>, 9\<close> get the indices
  \<open>0, 1, 3, 3, 5, 6, 7, 7, 9\<close>: index \<open>k\<close> for \<open>k\<close> in \<open>3, 5, 6, 7, 9\<close> and index \<open>k - 1\<close> for
  \<open>k\<close> in \<open>1, 2, 4, 8\<close>.
\<close>

theorem colorFor_in_domain:
  assumes "js_le min_val (Fin q)" and "js_le (Fin q) max_val"
  shows "(\<exists>k<10. decile_index (Fin q) = js_num k
            \<and> pixelValuesToColorFn (Num (Fin q) # rest) = RetColor (purpleGradientColors ! k)
            \<and> canvas_pixel (Num (Fin q)) = palette_rgba k)
       \<and> map palette_rgba [0, 1, 2, 3, 4, 5, 6, 7, 8, 9] =
            [[248, 244, 255, 178], [232, 213, 242, 178], [212, 179, 232, 178],
             [193, 145, 222, 178], [189, 111, 203, 178], [168, 85, 199, 178],
             [147, 51, 234, 178], [124, 58, 237, 178], [107, 33, 168, 178], [88, 28, 135, 178]]
       \<and> map_option opacity (currentLayer (step (s\<lparr>mapRef := True\<rparr>) (LoadEnds r (Decoded g))))
            = Some (js_lit (7 / 10))
       \<and> decile_index min_val = js_num 0 \<and> decile_index max_val = js_num 9
       \<and> map (\<lambda>k. decile_index (boundary k)) [1, 2, 3, 4, 5, 6, 7, 8, 9]
            = map js_num [0, 1, 3, 3, 5, 6, 7, 7, 9]"
proof -
  from assms have q: "- 2 \<le> q" "q \<le> max_q" by (simp_all add: js_le_min js_le_max)
  then have m: "min q max_q = q" by simp
  have "ramp_index q < 10" by (rule ramp_index_less)
  moreover have "decile_index (Fin q) = js_num (ramp_index q)" by (rule decile_index_eq [OF q])
  moreover have "pixelValuesToColorFn (Num (Fin q) # rest) = RetColor (purpleGradientColors ! ramp_index q)"
    using in_domain(1) [OF q(1), of rest] by (simp only: m)
  moreover have "canvas_pixel (Num (Fin q)) = palette_rgba (ramp_index q)"
    using in_domain(2) [OF q(1)] by (simp only: m)
  ultimately have "\<exists>k<10. decile_index (Fin q) = js_num k
            \<and> pixelValuesToColorFn (Num (Fin q) # rest) = RetColor (purpleGradientColors ! k)
            \<and> canvas_pixel (Num (Fin q)) = palette_rgba k" by blast
  then show ?thesis
    by (simp only: palette_rgba_eq layer_opacity endpoints boundaries simp_thms)
qed

theorem colorFor_in_domain_witness:
  "js_le min_val (Fin (- 1)) \<and> js_le (Fin (- 1)) max_val
   \<and> (\<exists>k<10. decile_index (Fin (- 1)) = js_num k
         \<and> pixelValuesToColorFn [Num (Fin (- 1))] = RetColor (purpleGradientColors ! k)
         \<and> canvas_pixel (Num (Fin (- 1))) = palette_rgba k)"
proof -
  have h: "js_le min_val (Fin (- 1))" "js_le (Fin (- 1)) max_val"
    by (simp_all add: js_le_min js_le_max max_q_def)
  from colorFor_in_domain [OF h, of "[]"] h show ?thesis by blast
qed

lemma boundary_8: "boundary 8 = Fin (- (1080863910568919 / 4503599627370496))"
  by (simp add: ramp_eval)

theorem boundary_8_counterexample:
  "js_le min_val (boundary 8) \<and> js_le (boundary 8) max_val
   \<and> boundary 8 = Fin (- (1080863910568919 / 4503599627370496))
   \<and> \<lfloor>(- (1080863910568919 / 4503599627370496) + 2) / (22 / 10) * (10 :: rat)\<rfloor> = 8
   \<and> decile_index (boundary 8) = js_num 7
   \<and> pixelValuesToColorFn [Num (boundary 8)] = RetColor (purpleGradientColors ! 7)
   \<and> canvas_pixel (Num (boundary 8)) = palette_rgba 7
   \<and> purpleGradientColors ! 7 \<noteq> purpleGradientColors ! 8
   \<and> palette_rgba 7 \<noteq> palette_rgba 8"
proof -
  let ?v = "- (1080863910568919 / 4503599627370496) :: rat"
  have v: "- 2 \<le> ?v" "?v \<le> max_q" by (simp_all add: max_q_def)
  then have m: "min ?v max_q = ?v" by simp
  have d: "decile_index (Fin ?v) = js_num 7" by (simp add: ramp_eval)
  then have "js_num (ramp_index ?v) = js_num 7" by (simp only: decile_index_eq [OF v])
  then have i: "ramp_index ?v = 7" by (simp add: js_num_def)
  have "pixelValuesToColorFn [Num (Fin ?v)] = RetColor (purpleGradientColors ! 7)"
    using in_domain(1) [OF v(1), of "[]"] by (simp only: m i)
  moreover have "canvas_pixel (Num (Fin ?v)) = palette_rgba 7"
    using in_domain(2) [OF v(1)] by (simp only: m i)
  moreover have "\<lfloor>(?v + 2) / (22 / 10) * (10 :: rat)\<rfloor> = 8"
    by (simp add: floor_numeral_quotient)
  moreover have "purpleGradientColors ! 7 \<noteq> purpleGradientColors ! 8"
    by (simp add: purpleGradientColors_def)
  moreover have "palette_rgba 7 \<noteq> palette_rgba 8" using palette_rgba_eq by simp
  ultimately show ?thesis using v d
    by (simp only: boundary_8 js_le_min js_le_max simp_thms)
qed

text \<open>
  C2. A pixel value that is \<open>undefined\<close>, \<open>NaN\<close> or a number strictly less than \<open>-2.0\<close>
  is transparent in both renderers: the callback returns \<open>null\<close>, and the canvas loop only
  writes the alpha byte \<open>0\<close>. The callback also returns \<open>null\<close> for \<open>null\<close> and for an
  empty list of band values. The samples of the canvas loop are the elements of the typed
  array that \<open>readRasters\<close> returns, which are numbers.
\<close>

theorem transparent_values:
  assumes "v = Undefined \<or> v = Num NaN \<or> (\<exists>x. v = Num x \<and> js_lt x min_val)"
  shows "pixelValuesToColorFn (v # rest) = RetNull
       \<and> paint v i data = store data (i * 4 + 3) (Fin 0)
       \<and> canvas_pixel v = [0, 0, 0, 0]
       \<and> pixelValuesToColorFn (Null # rest) = RetNull
       \<and> pixelValuesToColorFn [] = RetNull"
proof -
  have "canvas_pixel v = [0, 0, 0, 0]"
    unfolding canvas_pixel_def below_domain(2) [OF assms] by (rule transparent_pixel)
  moreover have "pixelValuesToColorFn (Null # rest) = RetNull" "pixelValuesToColorFn [] = RetNull"
    by (simp_all add: pixelValuesToColorFn_def)
  ultimately show ?thesis using below_domain [OF assms] by simp
qed

theorem transparent_values_witness:
  "js_lt (Fin (- 3)) min_val
   \<and> pixelValuesToColorFn [Num (Fin (- 3)), Num (Fin 0)] = RetNull
   \<and> paint (Num (Fin (- 3))) 1 [1, 2, 3, 4, 5, 6, 7, 8] = [1, 2, 3, 4, 5, 6, 7, 0]
   \<and> canvas_pixel (Num (Fin (- 3))) = [0, 0, 0, 0]"
proof -
  have h: "js_lt (Fin (- 3)) min_val" by (simp add: min_val_eq)
  then have "Num (Fin (- 3)) = Undefined \<or> Num (Fin (- 3)) = Num NaN
      \<or> (\<exists>x. Num (Fin (- 3)) = Num x \<and> js_lt x min_val)" by simp
  from transparent_values [OF this, of "[Num (Fin 0)]" 1 "[1, 2, 3, 4, 5, 6, 7, 8]"] h
  show ?thesis by (simp add: store_def)
qed

text \<open>
  C3. The callback of \<open>MapComponent.jsx\<close> and the canvas loop compute the same
  classification of \<open>undefined\<close>, of \<open>NaN\<close>, of the infinities and of every finite number:
  either the callback returns \<open>null\<close> and the loop leaves a transparent pixel, or both show
  the palette entry of one and the same index. The value \<open>null\<close> is no element of the typed
  array that the canvas loop takes its samples from, and reaches the callback only.
\<close>

theorem paths_agree:
  assumes "v \<noteq> Null"
  shows "(pixelValuesToColorFn (v # rest) = RetNull \<and> canvas_pixel v = [0, 0, 0, 0])
       \<or> (\<exists>k<10. pixelValuesToColorFn (v # rest) = RetColor (purpleGradientColors ! k)
                 \<and> canvas_pixel v = palette_rgba k)"
proof (cases "v = Undefined \<or> v = Num NaN \<or> (\<exists>x. v = Num x \<and> js_lt x min_val)")
  case True
  have "canvas_pixel v = [0, 0, 0, 0]"
    unfolding canvas_pixel_def below_domain(2) [OF True] by (rule transparent_pixel)
  then show ?thesis using below_domain(1) [OF True] by simp
next
  case False
  with assms obtain x where v: "v = Num x" "x \<noteq> NaN" "\<not> js_lt x min_val"
    by (cases v) auto
  show ?thesis
  proof (cases x)
    case NaN
    with v show ?thesis by simp
  next
    case NegInf
    with v show ?thesis by (simp add: min_val_eq)
  next
    case (Fin q)
    with v have q: "- 2 \<le> q" by (simp add: min_val_eq)
    show ?thesis
      using in_domain(1) [OF q, of rest] in_domain(2) [OF q] ramp_index_less [of "min q max_q"]
        v(1) Fin by blast
  next
    case PosInf
    show ?thesis
      using at_posinf(1) [of rest] at_posinf(2) ramp_index_less [of max_q] v(1) PosInf by blast
  qed
qed

theorem paths_agree_witness:
  "Num (Fin 0) \<noteq> Null
   \<and> ((pixelValuesToColorFn [Num (Fin 0)] = RetNull \<and> canvas_pixel (Num (Fin 0)) = [0, 0, 0, 0])
      \<or> (\<exists>k<10. pixelValuesToColorFn [Num (Fin 0)] = RetColor (purpleGradientColors ! k)
                \<and> canvas_pixel (Num (Fin 0)) = palette_rgba k))"
proof -
  have h: "Num (Fin 0) \<noteq> Null" by simp
  from paths_agree [OF h, of "[]"] h show ?thesis by blast
qed

section \<open>Display bounds\<close>

lemma lit_bounds:
  "js_lit (- 180) = Fin (- 180)" "js_lit 180 = Fin 180" "js_lit (- 90) = Fin (- 90)"
  "js_lit 90 = Fin 90" "js_lit (- (195 / 2)) = Fin (- (195 / 2))" "js_lit (- 80) = Fin (- 80)"
  "js_lit 25 = Fin 25" "js_lit (61 / 2) = Fin (61 / 2)"
  by (simp_all add: js_lit_def rnd_evals)

text \<open>
  C4. A decoded bounding box is classified as geographic, \<open>isProjected = false\<close>, exactly
  when \<open>xmin \<ge> -180\<close>, \<open>xmax \<le> 180\<close>, \<open>ymin \<ge> -90\<close> and \<open>ymax \<le> 90\<close>. When it is classified
  as projected, the display bounds are the fixed box \<open>xmin = -97.5\<close>, \<open>xmax = -80.0\<close>,
  \<open>ymin = 25.0\<close>, \<open>ymax = 30.5\<close>, and \<open>originalBounds\<close> holds the native bounds unchanged.
\<close>

theorem displayBounds_classification:
  "isProjected (displayBounds g)
     = (\<not> (js_ge (xmin g) (Fin (- 180)) \<and> js_le (xmax g) (Fin 180)
           \<and> js_ge (ymin g) (Fin (- 90)) \<and> js_le (ymax g) (Fin 90)))
   \<and> (xmin g = Fin a \<and> xmax g = Fin b \<and> ymin g = Fin c \<and> ymax g = Fin d \<longrightarrow>
         (isProjected (displayBounds g) = False)
           = (- 180 \<le> a \<and> b \<le> 180 \<and> - 90 \<le> c \<and> d \<le> 90))
   \<and> (isProjected (displayBounds g) \<longrightarrow>
         xmin (displayBounds g) = Fin (- (975 / 10)) \<and> xmax (displayBounds g) = Fin (- 80)
         \<and> ymin (displayBounds g) = Fin 25 \<and> ymax (displayBounds g) = Fin (305 / 10)
         \<and> originalBounds (displayBounds g)
             = Some \<lparr>xmin = xmin g, xmax = xmax g, ymin = ymin g, ymax = ymax g\<rparr>)"
  by (auto simp add: displayBounds_def isGeographic_def lit_bounds js_ge_def js_le_def)

theorem displayBounds_classification_witness:
  "isProjected (displayBounds \<lparr>xmin = Fin (- 100), xmax = Fin (- 90), ymin = Fin 20, ymax = Fin 30\<rparr>) = False
   \<and> isProjected (displayBounds \<lparr>xmin = Fin 500000, xmax = Fin 600000, ymin = Fin 3000000, ymax = Fin 3100000\<rparr>)
   \<and> displayBounds \<lparr>xmin = Fin 500000, xmax = Fin 600000, ymin = Fin 3000000, ymax = Fin 3100000\<rparr>
       = \<lparr>xmin = Fin (- (975 / 10)), xmax = Fin (- 80), ymin = Fin 25, ymax = Fin (305 / 10),
          isProjected = True,
          originalBounds = Some \<lparr>xmin = Fin 500000, xmax = Fin 600000, ymin = Fin 3000000, ymax = Fin 3100000\<rparr>\<rparr>"
proof -
  let ?g = "\<lparr>xmin = Fin (- 100), xmax = Fin (- 90), ymin = Fin 20, ymax = Fin 30\<rparr>"
  let ?p = "\<lparr>xmin = Fin 500000, xmax = Fin 600000, ymin = Fin 3000000, ymax = Fin 3100000\<rparr>"
  have g: "xmin ?g = Fin (- 100) \<and> xmax ?g = Fin (- 90) \<and> ymin ?g = Fin 20 \<and> ymax ?g = Fin 30"
    by simp
  have p: "xmin ?p = Fin 500000 \<and> xmax ?p = Fin 600000 \<and> ymin ?p = Fin 3000000 \<and> ymax ?p = Fin 3100000"
    by simp
  from displayBounds_classification [of ?g "- 100" "- 90" 20 30] g
  have 1: "isProjected (displayBounds ?g) = False" by (simp add: js_ge_def js_le_def)
  from displayBounds_classification [of ?p 500000 600000 3000000 3100000] p
  have 2: "isProjected (displayBounds ?p)" by (simp add: js_ge_def js_le_def)
  with displayBounds_classification [of ?p 500000 600000 3000000 3100000]
  have "displayBounds ?p = \<lparr>xmin = Fin (- (975 / 10)), xmax = Fin (- 80), ymin = Fin 25,
      ymax = Fin (305 / 10), isProjected = True, originalBounds = Some ?p\<rparr>"
    by (cases "displayBounds ?p") simp
  with 1 2 show ?thesis by simp
qed

section \<open>The legend\<close>

lemma upt_10: "[0 ..< 10] = [0, 1, 2, 3, 4, 5, 6, 7, 8, 9]"
  by (simp add: upt_rec)

lemma step_eq:
  "js_div (js_sub max_val min_val) (js_num (length purpleGradientColors))
     = Fin (3963167672086037 / 18014398509481984)"
  using range_val_eq
  by (simp add: range_val_def palette_length js_num_def range_q_def rnd_evals)

lemma decimal_numeral:
  "decimal (numeral k) = (if (numeral k :: nat) < 10 then [digit_char (numeral k)]
     else decimal (numeral k div 10) @ [digit_char (numeral k mod 10)])"
  "decimal 0 = ''0''" "decimal 1 = ''1''" "decimal (Suc 0) = ''1''"
  by (subst decimal.simps, simp add: digit_char_def)+

lemmas toFixed_eval =
  toFixed_def floor_numeral_quotient decimal_numeral digit_char_def Let_def

lemma toFixed_bounds:
  "toFixed ts 3 (Fin (- 2)) = ''-2.000''"
  "toFixed ts 3 (Fin (- (8016407336719483 / 4503599627370496))) = ''-1.780''"
  "toFixed ts 3 (Fin (- (3512807709348987 / 2251799813685248))) = ''-1.560''"
  "toFixed ts 3 (Fin (- (6034823500676465 / 4503599627370496))) = ''-1.340''"
  "toFixed ts 3 (Fin (- (377176468792279 / 281474976710656))) = ''-1.340''"
  "toFixed ts 3 (Fin (- (5044031582654955 / 4503599627370496))) = ''-1.120''"
  "toFixed ts 3 (Fin (- (2026619832316723 / 2251799813685248))) = ''-0.900''"
  "toFixed ts 3 (Fin (- (3062447746611937 / 4503599627370496))) = ''-0.680''"
  "toFixed ts 3 (Fin (- (95701492081623 / 140737488355328))) = ''-0.680''"
  "toFixed ts 3 (Fin (- (8286623314361707 / 18014398509481984))) = ''-0.460''"
  "toFixed ts 3 (Fin (- (2071655828590427 / 4503599627370496))) = ''-0.460''"
  "toFixed ts 3 (Fin (- (4323455642275671 / 18014398509481984))) = ''-0.240''"
  "toFixed ts 3 (Fin (- (540431955284459 / 2251799813685248))) = ''-0.240''"
  "toFixed ts 3 (Fin (- (360287970189635 / 18014398509481984))) = ''-0.020''"
  "toFixed ts 3 (Fin (- (90071992547409 / 4503599627370496))) = ''-0.020''"
  "toFixed ts 3 (Fin (3602879701896401 / 18014398509481984)) = ''0.200''"
  by (simp_all add: toFixed_eval)

text \<open>
  C6. For a selected visualization the legend has exactly ten entries, entry \<open>i\<close> with the
  colour \<open>palette[i]\<close> and the label \<open>"{rangeStart} - {rangeEnd}"\<close>, both numbers with exactly
  three decimals: the labels are those of the exact values \<open>-2.0 + i * 0.22\<close> and
  \<open>-2.0 + (i + 1) * 0.22\<close>, from \<open>"-2.000 - -1.780"\<close> to \<open>"-0.020 - 0.200"\<close>. A value that
  is \<open>null\<close>, \<open>undefined\<close> or not a number is rendered as \<open>"N/A"\<close>.
\<close>

theorem legend_entries:
  "map_option ranges (useLegend ts (Obj cv) datasetInfo visType) =
     Some [\<lparr>color = ''#F8F4FF'', label = ''-2.000 - -1.780''\<rparr>,
           \<lparr>color = ''#E8D5F2'', label = ''-1.780 - -1.560''\<rparr>,
           \<lparr>color = ''#D4B3E8'', label = ''-1.560 - -1.340''\<rparr>,
           \<lparr>color = ''#C191DE'', label = ''-1.340 - -1.120''\<rparr>,
           \<lparr>color = ''#BD6FCB'', label = ''-1.120 - -0.900''\<rparr>,
           \<lparr>color = ''#A855C7'', label = ''-0.900 - -0.680''\<rparr>,
           \<lparr>color = ''#9333EA'', label = ''-0.680 - -0.460''\<rparr>,
           \<lparr>color = ''#7C3AED'', label = ''-0.460 - -0.240''\<rparr>,
           \<lparr>color = ''#6B21A8'', label = ''-0.240 - -0.020''\<rparr>,
           \<lparr>color = ''#581C87'', label = ''-0.020 - 0.200''\<rparr>]
   \<and> map_option (map color \<circ> ranges) (useLegend ts (Obj cv) datasetInfo visType)
       = Some purpleGradientColors
   \<and> map_option (map label \<circ> ranges) (useLegend ts (Obj cv) datasetInfo visType) =
     Some (map (\<lambda>i. toFixed ts 3 (Fin (- 2 + of_nat i * (22 / 100))) @ '' - '' @
                     toFixed ts 3 (Fin (- 2 + of_nat i * (22 / 100) + 22 / 100)))
            [0, 1, 2, 3, 4, 5, 6, 7, 8, 9])
   \<and> formatLegendNumber ts Null = ''N/A'' \<and> formatLegendNumber ts Undefined = ''N/A''
   \<and> formatLegendNumber ts (Num NaN) = ''N/A''"
proof -
  have r: "map_option ranges (useLegend ts (Obj cv) datasetInfo visType) =
     Some [\<lparr>color = ''#F8F4FF'', label = ''-2.000 - -1.780''\<rparr>,
           \<lparr>color = ''#E8D5F2'', label = ''-1.780 - -1.560''\<rparr>,
           \<lparr>color = ''#D4B3E8'', label = ''-1.560 - -1.340''\<rparr>,
           \<lparr>color = ''#C191DE'', label = ''-1.340 - -1.120''\<rparr>,
           \<lparr>color = ''#BD6FCB'', label = ''-1.120 - -0.900''\<rparr>,
           \<lparr>color = ''#A855C7'', label = ''-0.900 - -0.680''\<rparr>,
           \<lparr>color = ''#9333EA'', label = ''-0.680 - -0.460''\<rparr>,
           \<lparr>color = ''#7C3AED'', label = ''-0.460 - -0.240''\<rparr>,
           \<lparr>color = ''#6B21A8'', label = ''-0.240 - -0.020''\<rparr>,
           \<lparr>color = ''#581C87'', label = ''-0.020 - 0.200''\<rparr>]"
    unfolding useLegend_def Let_def step_eq
    by (simp add: upt_10 purpleGradientColors_def min_val_eq js_num_def rnd_evals rnd_0
          formatLegendNumber_def toFixed_bounds)
  have n: "formatLegendNumber ts Null = ''N/A''" "formatLegendNumber ts Undefined = ''N/A''"
    "formatLegendNumber ts (Num NaN) = ''N/A''"
    by (simp_all add: formatLegendNumber_def)
  from r obtain cfg where c: "useLegend ts (Obj cv) datasetInfo visType = Some cfg"
    by (cases "useLegend ts (Obj cv) datasetInfo visType") auto
  show ?thesis using r n
    by (simp add: c) (simp add: purpleGradientColors_def toFixed_eval)
qed

text \<open>
  C10. \<open>useLegend\<close> returns a configuration exactly when a visualization is selected: for
  an \<open>undefined\<close> or \<open>null\<close> \<open>currentVisualization\<close> it returns \<open>null\<close>, and for every
  visualization it returns a configuration with one range per palette colour, whatever
  \<open>datasetInfo\<close> is.
\<close>

theorem useLegend_selected:
  "useLegend ts IsUndefined datasetInfo visType = None
   \<and> useLegend ts IsNull datasetInfo visType = None
   \<and> (\<exists>cfg. useLegend ts (Obj cv) datasetInfo visType = Some cfg
          \<and> length (ranges cfg) = length purpleGradientColors)
   \<and> ((useLegend ts currentVisualization datasetInfo visType \<noteq> None)
        = (\<exists>v. currentVisualization = Obj v))"
  by (cases currentVisualization) (simp_all add: useLegend_def Let_def)

section \<open>Ordering of the raster resources\<close>














section \<open>Loads of the component and the canvas loop over a grid\<close>

lemmas component_eval =
  loadTiffData_start_def loadTiffData_finish_def tiffData_effect_def
  loadDatasetInfo_start_def loadDatasetInfo_finish_def selectedRaster_effect_def
  handleRasterChange_def truthy_def







lemma catalogue_rasters: "getAllTiffResources (Obj catalogue) = Inr [rasterA, rasterB]"
  unfolding catalogue_def rasterA_def rasterB_def by code_simp

lemma raster_ids:
  "id_r rasterA = Some ''raster-0''" "id_r rasterB = Some ''raster-1''" "rasterA \<noteq> rasterB"
  by (simp_all add: rasterA_def rasterB_def)

lemma run_loadedA:
  "run mounted [DatasetEnds (Inr (Obj catalogue)), LoadEnds rasterA (Decoded georasterA)]
     = Some loadedA"
  by (simp add: mounted_def loadedA_def component_eval catalogue_rasters)

lemma run_append:
  "run s (es @ es') = (case run s es of None \<Rightarrow> None | Some t \<Rightarrow> run t es')"
  by (induction es arbitrary: s) simp_all

lemma select_rasterB:
  "enabled loadedA (SelectRaster ''raster-1'')"
  "step loadedA (SelectRaster ''raster-1'')
     = loadTiffData_start rasterB (loadedA\<lparr>selectedRaster := Some rasterB\<rparr>)"
  using raster_ids(3)
  by (simp_all add: loadedA_def raster_ids(1,2) handleRasterChange_def selectedRaster_effect_def)



text \<open>
  C8, as the code has it. When the parser called by \<open>loadTiffData\<close> rejects the bytes of
  the selected raster, in \<open>MapComponent.jsx\<close> and in \<open>part_000\<close> alike, \<open>tiffData\<close> becomes
  the placeholder that carries the message of the failure, the loading indicator is
  cleared, the \<open>error\<close> state stays \<open>null\<close> and the attached layer is not touched, so no
  overlay is attached for the raster. In \<open>MapComponent.jsx\<close> there is no \<open>Retry\<close> button
  then, a choice of the same raster starts nothing, and a choice of another raster starts
  a load, whose raster is attached when it decodes. In \<open>part_000\<close> a file that the parser
  accepts and that cannot be read when the overlay is drawn is stored in \<open>tiffData\<close> as
  actual data, the attached layer is removed, and when the drawing ends the \<open>error\<close> state
  is set to a fixed message and no overlay is attached.
\<close>

theorem decode_failure_placeholder:
  assumes "\<not> loading s"
    and "find (\<lambda>x. id_r x = Some i) (availableRasters s) = Some r"
    and "selectedRaster s \<noteq> Some r"
    and "s' = step (step s (SelectRaster i)) (LoadEnds r (DecodeRejected msg))"
    and "c' = tiffData_effect_canvas
                (loadTiffData_finish r (DecodeRejected msg) (loadTiffData_start r c))"
    and "mapRef c"
    and "c1 = tiffData_effect_canvas
                (loadTiffData_finish r (Decoded (Inl err)) (loadTiffData_start r c))"
    and "c2 = renderTiffOverlay_ends (Inl err) c1"
  shows "loading (step s (SelectRaster i)) \<and> selectedRaster (step s (SelectRaster i)) = Some r
       \<and> tiffData s' = Some \<lparr>td_georaster = None, td_placeholder = True, td_info = r,
                              td_isActualData = False, td_error = Some msg\<rparr>
       \<and> loading s' = False \<and> error s' = None \<and> currentLayer s' = currentLayer s
       \<and> selectedRaster s' = Some r
       \<and> \<not> enabled s' Retry
       \<and> step s' (SelectRaster i) = s'
       \<and> (find (\<lambda>x. id_r x = Some i') (availableRasters s) = Some r' \<and> r' \<noteq> r \<longrightarrow>
            loading (step s' (SelectRaster i'))
            \<and> selectedRaster (step s' (SelectRaster i')) = Some r'
            \<and> (mapRef s \<longrightarrow> map_option lr_georaster (currentLayer
                  (step (step s' (SelectRaster i')) (LoadEnds r' (Decoded g)))) = Some g))
       \<and> tiffData c' = Some \<lparr>td_georaster = None, td_placeholder = True, td_info = r,
                              td_isActualData = False, td_error = Some msg\<rparr>
       \<and> loading c' = False \<and> error c' = None \<and> currentLayer c' = currentLayer c
       \<and> tiffData c1 = Some \<lparr>td_georaster = Some (Inl err), td_placeholder = False, td_info = r,
                              td_isActualData = True, td_error = None\<rparr>
       \<and> loading c1 = False \<and> error c1 = None \<and> currentLayer c1 = None
       \<and> tiffData c2 = tiffData c1 \<and> loading c2 = False \<and> currentLayer c2 = None
       \<and> error c2 = Some
            ''Could not render the selected raster. It may be in an unsupported format.''"
proof -
  from assms(2) have av: "availableRasters s \<noteq> []" by auto
  have st: "step s (SelectRaster i) = loadTiffData_start r (s\<lparr>selectedRaster := Some r\<rparr>)"
    using assms(1-3) av by (simp add: handleRasterChange_def selectedRaster_effect_def)
  have a: "loading (step s (SelectRaster i)) \<and> selectedRaster (step s (SelectRaster i)) = Some r"
    unfolding st by (simp add: loadTiffData_start_def)
  have b: "s' = s\<lparr>selectedRaster := Some r, error := None,
               tiffData := Some \<lparr>td_georaster = None, td_placeholder = True, td_info = r,
                                 td_isActualData = False, td_error = Some msg\<rparr>,
               outstanding := remove1 (RasterLoad r) (outstanding s @ [RasterLoad r]),
               loading := False\<rparr>"
    unfolding assms(4) st by (simp add: component_eval)
  have g: "tiffData s' = Some \<lparr>td_georaster = None, td_placeholder = True, td_info = r,
                              td_isActualData = False, td_error = Some msg\<rparr>
       \<and> loading s' = False \<and> error s' = None \<and> currentLayer s' = currentLayer s
       \<and> selectedRaster s' = Some r
       \<and> \<not> enabled s' Retry
       \<and> step s' (SelectRaster i) = s'"
    unfolding b using assms(2) av by (simp add: truthy_def handleRasterChange_def)
  have c: "find (\<lambda>x. id_r x = Some i') (availableRasters s) = Some r' \<and> r' \<noteq> r \<longrightarrow>
            loading (step s' (SelectRaster i'))
            \<and> selectedRaster (step s' (SelectRaster i')) = Some r'
            \<and> (mapRef s \<longrightarrow> map_option lr_georaster (currentLayer
                  (step (step s' (SelectRaster i')) (LoadEnds r' (Decoded g)))) = Some g)"
    unfolding b using av by (auto simp add: component_eval)
  have d: "tiffData c' = Some \<lparr>td_georaster = None, td_placeholder = True, td_info = r,
                              td_isActualData = False, td_error = Some msg\<rparr>
       \<and> loading c' = False \<and> error c' = None \<and> currentLayer c' = currentLayer c"
    unfolding assms(5)
    by (simp add: loadTiffData_start_def loadTiffData_finish_def tiffData_effect_canvas_def)
  have e: "tiffData c1 = Some \<lparr>td_georaster = Some (Inl err), td_placeholder = False, td_info = r,
                              td_isActualData = True, td_error = None\<rparr>
       \<and> loading c1 = False \<and> error c1 = None \<and> currentLayer c1 = None"
    using assms(6) unfolding assms(7)
    by (simp add: loadTiffData_start_def loadTiffData_finish_def tiffData_effect_canvas_def)
  have f: "tiffData c2 = tiffData c1 \<and> loading c2 = False \<and> currentLayer c2 = None
       \<and> error c2 = Some
            ''Could not render the selected raster. It may be in an unsupported format.''"
    using e unfolding assms(8) by (simp add: renderTiffOverlay_ends_def)
  from a g c d e f show ?thesis by blast
qed

theorem decode_failure_placeholder_witness:
  "\<not> loading loadedA
   \<and> find (\<lambda>x. id_r x = Some ''raster-1'') (availableRasters loadedA) = Some rasterB
   \<and> selectedRaster loadedA \<noteq> Some rasterB
   \<and> mapRef (mounted :: (geotiff, image_overlay) component)
   \<and> error (step (step loadedA (SelectRaster ''raster-1''))
        (LoadEnds rasterB (DecodeRejected ''Invalid byte order value.''))) = None
   \<and> map_option lr_georaster (currentLayer (step (step loadedA (SelectRaster ''raster-1''))
        (LoadEnds rasterB (DecodeRejected ''Invalid byte order value.'')))) = Some georasterA
   \<and> error (renderTiffOverlay_ends (Inl ''Unknown compression method identifier'')
        (tiffData_effect_canvas
          (loadTiffData_finish rasterB (Decoded (Inl ''Unknown compression method identifier''))
            (loadTiffData_start rasterB mounted))))
       = Some ''Could not render the selected raster. It may be in an unsupported format.''"
proof -
  have h: "\<not> loading loadedA"
    "find (\<lambda>x. id_r x = Some ''raster-1'') (availableRasters loadedA) = Some rasterB"
    "selectedRaster loadedA \<noteq> Some rasterB"
    using raster_ids(3) by (simp_all add: loadedA_def raster_ids(1,2))
  have m: "mapRef (mounted :: (geotiff, image_overlay) component)" by (simp add: mounted_def)
  have l: "map_option lr_georaster (currentLayer loadedA) = Some georasterA"
    by (simp add: loadedA_def)
  from decode_failure_placeholder [OF h refl refl m refl refl,
      where msg = "''Invalid byte order value.''"
        and err = "''Unknown compression method identifier''"] h m l
  show ?thesis by simp
qed

theorem decode_failure_counterexample:
  "run mounted
     [DatasetEnds (Inr (Obj catalogue)), LoadEnds rasterA (Decoded georasterA),
      SelectRaster ''raster-1'',
      LoadEnds rasterB (DecodeRejected ''Invalid byte order value.'')]
   = Some \<lparr>loading = False, error = None,
           tiffData = Some \<lparr>td_georaster = None, td_placeholder = True, td_info = rasterB,
                            td_isActualData = False,
                            td_error = Some ''Invalid byte order value.''\<rparr>,
           dataset_info = Obj catalogue, availableRasters = [rasterA, rasterB],
           selectedRaster = Some rasterB,
           currentLayer = Some \<lparr>lr_georaster = georasterA, opacity = js_lit (7 / 10),
                                 resolution = 256\<rparr>,
           mapRef = True, outstanding = []\<rparr>
   \<and> run mounted
     [DatasetEnds (Inr (Obj catalogue)), LoadEnds rasterA (Decoded georasterA),
      SelectRaster ''raster-1'',
      LoadEnds rasterB (DecodeRejected ''Invalid byte order value.''), Retry] = None"
proof -
  let ?t = "\<lparr>loading = False, error = None,
           tiffData = Some \<lparr>td_georaster = None, td_placeholder = True, td_info = rasterB,
                            td_isActualData = False,
                            td_error = Some ''Invalid byte order value.''\<rparr>,
           dataset_info = Obj catalogue, availableRasters = [rasterA, rasterB],
           selectedRaster = Some rasterB,
           currentLayer = Some \<lparr>lr_georaster = georasterA, opacity = js_lit (7 / 10),
                                 resolution = 256\<rparr>,
           mapRef = True, outstanding = []\<rparr>"
  let ?u = "loadTiffData_start rasterB (loadedA\<lparr>selectedRaster := Some rasterB\<rparr>)"
  have e: "enabled ?u (LoadEnds rasterB (DecodeRejected ''Invalid byte order value.''))"
    by (simp add: loadTiffData_start_def loadedA_def)
  have st: "step ?u (LoadEnds rasterB (DecodeRejected ''Invalid byte order value.'')) = ?t"
    by (simp add: loadTiffData_start_def loadTiffData_finish_def tiffData_effect_def loadedA_def)
  have r2: "run loadedA [SelectRaster ''raster-1'',
      LoadEnds rasterB (DecodeRejected ''Invalid byte order value.'')] = Some ?t"
    using e by (simp add: select_rasterB st del: step.simps enabled.simps)
  have n: "\<not> enabled ?t Retry" by (simp add: truthy_def)
  have 1: "run mounted
     ([DatasetEnds (Inr (Obj catalogue)), LoadEnds rasterA (Decoded georasterA)] @
      [SelectRaster ''raster-1'',
       LoadEnds rasterB (DecodeRejected ''Invalid byte order value.'')]) = Some ?t"
    unfolding run_append run_loadedA using r2 by simp
  have 2: "run mounted
     (([DatasetEnds (Inr (Obj catalogue)), LoadEnds rasterA (Decoded georasterA)] @
      [SelectRaster ''raster-1'',
       LoadEnds rasterB (DecodeRejected ''Invalid byte order value.'')]) @ [Retry]) = None"
    unfolding run_append [of mounted _ "[Retry]"] 1 using n by (simp del: enabled.simps)
  from 1 2 show ?thesis by simp
qed

lemma replicate_8: "replicate 8 x = [x, x, x, x, x, x, x, x]"
  by (simp add: numeral_eq_Suc)

lemmas paint_eval =
  renderTiffOverlay_def paint_def store_def js_isNaN_def min_val_eq max_val_eq max_q_def
  range_val_eq range_q_def colorRamp_eq Math_max_def Math_min_def js_sub_def js_num_def
  js_lit_def floor_numeral_quotient round_half_even_def rnd_evals rnd_0 replicate_8

text \<open>
  C9 does not hold for the canvas loop. On a grid of two pixels with two bands, whose first
  band is \<open>-2.0\<close> at both pixels, the second pixel of the image shows the second band of the
  first pixel: it is transparent when that sample is \<open>-3.0\<close> and has the last palette
  colour when it is \<open>0\<close>. The callback of \<open>MapComponent.jsx\<close> reads the first band only.
\<close>

theorem interleaved_bands_on_canvas:
  "renderTiffOverlay 2 1 [Num (Fin (- 2)), Num (Fin (- 3)), Num (Fin (- 2)), Num (Fin (- 3))]
     = [248, 244, 255, 178, 0, 0, 0, 0]
   \<and> renderTiffOverlay 2 1 [Num (Fin (- 2)), Num (Fin 0), Num (Fin (- 2)), Num (Fin 0)]
     = [248, 244, 255, 178, 88, 28, 135, 178]
   \<and> pixelValuesToColorFn (v # rest) = pixelValuesToColorFn [v]"
proof -
  have "renderTiffOverlay 2 1 [Num (Fin (- 2)), Num (Fin (- 3)), Num (Fin (- 2)), Num (Fin (- 3))]
     = [248, 244, 255, 178, 0, 0, 0, 0]"
    by (simp add: paint_eval)
  moreover have "renderTiffOverlay 2 1 [Num (Fin (- 2)), Num (Fin 0), Num (Fin (- 2)), Num (Fin 0)]
     = [248, 244, 255, 178, 88, 28, 135, 178]"
    by (simp add: paint_eval)
  moreover have "pixelValuesToColorFn (v # rest) = pixelValuesToColorFn [v]"
    by (simp add: pixelValuesToColorFn_def)
  ultimately show ?thesis by simp
qed

end
